theory Spec2Isabelle
  imports Complex_Main
begin

section \<open>Python values used by the statistics engine\<close>

text \<open>
  Strings are read as ASCII text, one \<open>char\<close> per character. The helpers below follow
  the Python built-ins the engine calls (\<open>str.strip\<close>, \<open>str.lower\<close>, \<open>str.upper\<close>,
  \<open>str.replace\<close> on one-character patterns, \<open>str.split\<close> on a one-character
  separator, \<open>int\<close> on a string).
\<close>

datatype py_error = ValueError | OverflowError

definition py_isspace :: "char \<Rightarrow> bool" where
  "py_isspace c = (of_char c \<in> {9::nat, 10, 11, 12, 13, 28, 29, 30, 31, 32})"

definition py_strip :: "string \<Rightarrow> string" where
  "py_strip s = rev (dropWhile py_isspace (rev (dropWhile py_isspace s)))"

definition lower_char :: "char \<Rightarrow> char" where
  "lower_char c = (let n = (of_char c :: nat) in if 65 \<le> n \<and> n \<le> 90 then char_of (n + 32) else c)"

definition upper_char :: "char \<Rightarrow> char" where
  "upper_char c = (let n = (of_char c :: nat) in if 97 \<le> n \<and> n \<le> 122 then char_of (n - 32) else c)"

definition py_lower :: "string \<Rightarrow> string" where
  "py_lower s = map lower_char s"

definition py_upper :: "string \<Rightarrow> string" where
  "py_upper s = map upper_char s"

definition remove_char :: "char \<Rightarrow> string \<Rightarrow> string" where
  "remove_char c s = filter (\<lambda>x. x \<noteq> c) s"

definition replace_char :: "char \<Rightarrow> char \<Rightarrow> string \<Rightarrow> string" where
  "replace_char a b s = map (\<lambda>x. if x = a then b else x) s"

fun py_split :: "char \<Rightarrow> string \<Rightarrow> string list" where
  "py_split sep [] = [[]]"
| "py_split sep (c # cs) =
     (if c = sep then [] # py_split sep cs
      else (case py_split sep cs of
              [] \<Rightarrow> [[c]]
            | p # ps \<Rightarrow> (c # p) # ps))"

definition is_digit :: "char \<Rightarrow> bool" where
  "is_digit c = (let n = (of_char c :: nat) in 48 \<le> n \<and> n \<le> 57)"

definition digit_val :: "char \<Rightarrow> nat" where
  "digit_val c = of_char c - 48"

text \<open>
  The digits of a decimal literal as \<open>int()\<close> accepts them: at least one digit, and a
  single underscore allowed between two digits.
\<close>

fun parse_digits :: "string \<Rightarrow> nat \<Rightarrow> bool \<Rightarrow> nat option" where
  "parse_digits [] acc prev_digit = (if prev_digit then Some acc else None)"
| "parse_digits (c # cs) acc prev_digit =
     (if is_digit c then parse_digits cs (acc * 10 + digit_val c) True
      else if c = CHR ''_'' \<and> prev_digit then parse_digits cs acc False
      else None)"

text \<open>
  \<open>int\<close> skips blanks around the literal, but fewer characters than \<open>str.strip\<close>
  removes: the separators \<open>\x1c\<close> to \<open>\x1f\<close> are not skipped.
\<close>

definition int_isspace :: "char \<Rightarrow> bool" where
  "int_isspace c = (of_char c \<in> {9::nat, 10, 11, 12, 13, 32})"

definition py_int :: "string \<Rightarrow> py_error + int" where
  "py_int s =
     (case rev (dropWhile int_isspace (rev (dropWhile int_isspace s))) of
        [] \<Rightarrow> Inl ValueError
      | c # cs \<Rightarrow>
          if c = CHR ''-'' then
            (case parse_digits cs 0 False of None \<Rightarrow> Inl ValueError | Some n \<Rightarrow> Inr (- int n))
          else if c = CHR ''+'' then
            (case parse_digits cs 0 False of None \<Rightarrow> Inl ValueError | Some n \<Rightarrow> Inr (int n))
          else
            (case parse_digits (c # cs) 0 False of None \<Rightarrow> Inl ValueError | Some n \<Rightarrow> Inr (int n)))"

section \<open>Time-of-day parsing and session duration\<close>

text \<open>
  \<open>_parse_time_minutes\<close>: every exception raised inside the \<open>try\<close> block is caught and
  turned into \<open>None\<close>, so the model returns an option.
\<close>

definition parse_time_minutes :: "string option \<Rightarrow> int option" where
  "parse_time_minutes t =
     (case t of
        None \<Rightarrow> None
      | Some t0 \<Rightarrow>
          if t0 = [] then None
          else
            let s = py_lower (py_strip t0);
                s = remove_char CHR '' '' s;
                s = replace_char CHR ''h'' CHR '':'' s;
                s = (if s \<noteq> [] \<and> last s = CHR '':'' then s @ ''00'' else s);
                parts = py_split CHR '':'' s
            in (case parts of
                  [] \<Rightarrow> None
                | [p0] \<Rightarrow>
                    (case py_int p0 of
                       Inl _ \<Rightarrow> None
                     | Inr hh \<Rightarrow>
                         if 0 \<le> hh \<and> hh \<le> 23 then Some (hh * 60 + 0) else None)
                | p0 # p1 # _ \<Rightarrow>
                    (case py_int p0 of
                       Inl _ \<Rightarrow> None
                     | Inr hh \<Rightarrow>
                         (case (if p1 \<noteq> [] then py_int p1 else Inr 0) of
                            Inl _ \<Rightarrow> None
                          | Inr mm \<Rightarrow>
                              if 0 \<le> hh \<and> hh \<le> 23 \<and> 0 \<le> mm \<and> mm \<le> 59
                              then Some (hh * 60 + mm) else None))))"


section \<open>Calendar dates\<close>

text \<open>
  A \<open>datetime.date\<close> is a year, a month and a day of the proleptic Gregorian calendar
  with \<open>1 \<le> year \<le> 9999\<close>. Adding a \<open>timedelta\<close> that leaves this range raises
  \<open>OverflowError\<close>; building a date from fields that name no day raises \<open>ValueError\<close>.
\<close>

record date =
  year :: int
  month :: int
  day :: int

definition is_leap :: "int \<Rightarrow> bool" where
  "is_leap y = (y mod 4 = 0 \<and> (y mod 100 \<noteq> 0 \<or> y mod 400 = 0))"

definition days_in_month :: "int \<Rightarrow> int \<Rightarrow> int" where
  "days_in_month y m =
     (if m = 2 then (if is_leap y then 29 else 28)
      else if m = 4 \<or> m = 6 \<or> m = 9 \<or> m = 11 then 30
      else 31)"

definition valid_date :: "date \<Rightarrow> bool" where
  "valid_date d =
     (1 \<le> year d \<and> year d \<le> 9999 \<and> 1 \<le> month d \<and> month d \<le> 12 \<and>
      1 \<le> day d \<and> day d \<le> days_in_month (year d) (month d))"

definition mk_date :: "int \<Rightarrow> int \<Rightarrow> int \<Rightarrow> py_error + date" where
  "mk_date y m d =
     (let r = \<lparr>year = y, month = m, day = d\<rparr>
      in if valid_date r then Inr r else Inl ValueError)"

definition next_day :: "date \<Rightarrow> date option" where
  "next_day d =
     (if day d < days_in_month (year d) (month d) then Some (d\<lparr>day := day d + 1\<rparr>)
      else if month d < 12 then Some \<lparr>year = year d, month = month d + 1, day = 1\<rparr>
      else if year d < 9999 then Some \<lparr>year = year d + 1, month = 1, day = 1\<rparr>
      else None)"

definition prev_day :: "date \<Rightarrow> date option" where
  "prev_day d =
     (if 1 < day d then Some (d\<lparr>day := day d - 1\<rparr>)
      else if 1 < month d
        then Some \<lparr>year = year d, month = month d - 1, day = days_in_month (year d) (month d - 1)\<rparr>
      else if 1 < year d then Some \<lparr>year = year d - 1, month = 12, day = 31\<rparr>
      else None)"

fun days_later :: "nat \<Rightarrow> date \<Rightarrow> date option" where
  "days_later 0 d = Some d"
| "days_later (Suc n) d = (case next_day d of None \<Rightarrow> None | Some d' \<Rightarrow> days_later n d')"

fun days_earlier :: "nat \<Rightarrow> date \<Rightarrow> date option" where
  "days_earlier 0 d = Some d"
| "days_earlier (Suc n) d = (case prev_day d of None \<Rightarrow> None | Some d' \<Rightarrow> days_earlier n d')"

text \<open>\<open>d + timedelta(days=n)\<close>; \<open>d - timedelta(days=n)\<close> is \<open>date_add d (- n)\<close>.\<close>

definition date_add :: "date \<Rightarrow> int \<Rightarrow> py_error + date" where
  "date_add d n =
     (case (if 0 \<le> n then days_later (nat n) d else days_earlier (nat (- n)) d) of
        None \<Rightarrow> Inl OverflowError
      | Some r \<Rightarrow> Inr r)"

definition days_before_year :: "int \<Rightarrow> int" where
  "days_before_year y = (y - 1) * 365 + (y - 1) div 4 - (y - 1) div 100 + (y - 1) div 400"

definition days_before_month :: "int \<Rightarrow> int \<Rightarrow> int" where
  "days_before_month y m = sum_list (map (days_in_month y) [1 .. m - 1])"

definition toordinal :: "date \<Rightarrow> int" where
  "toordinal d = days_before_year (year d) + days_before_month (year d) (month d) + day d"

text \<open>\<open>(a - b).days\<close> for two dates.\<close>

definition date_diff_days :: "date \<Rightarrow> date \<Rightarrow> int" where
  "date_diff_days a b = toordinal a - toordinal b"

text \<open>\<open>date.weekday()\<close>: Monday is 0.\<close>

definition weekday :: "date \<Rightarrow> nat" where
  "weekday d = nat ((toordinal d + 6) mod 7)"

definition date_le :: "date \<Rightarrow> date \<Rightarrow> bool" where
  "date_le a b =
     (year a < year b \<or> (year a = year b \<and> (month a < month b \<or> (month a = month b \<and> day a \<le> day b))))"

definition date_min :: "date \<Rightarrow> date \<Rightarrow> date" where
  "date_min a b = (if date_le a b then a else b)"

definition date_max :: "date \<Rightarrow> date \<Rightarrow> date" where
  "date_max a b = (if date_le a b then b else a)"

section \<open>Entities read by the engine\<close>

text \<open>
  The columns of \<open>AtelierActivite\<close>, \<open>SessionActivite\<close>, \<open>PresenceActivite\<close>,
  \<open>Participant\<close>, \<open>Quartier\<close> and \<open>PeriodeFinancement\<close> that the statistics code
  reads. A nullable column is an option; on a column declared \<open>nullable=False\<close> the
  source's \<open>x or ""\<close> is the identity.
\<close>

record atelier =
  a_id :: int
  a_secteur :: string
  a_nom :: string
  type_atelier :: string
  capacite_defaut :: "int option"
  duree_defaut_minutes :: "int option"
  a_is_deleted :: bool

record session =
  s_id :: int
  s_atelier_id :: int
  s_secteur :: string
  session_type :: string
  date_session :: "date option"
  heure_debut :: "string option"
  heure_fin :: "string option"
  capacite :: "int option"
  statut :: string
  rdv_date :: "date option"
  rdv_debut :: "string option"
  rdv_fin :: "string option"
  s_is_deleted :: bool

record presence =
  p_id :: int
  p_session_id :: int
  p_participant_id :: int

text \<open>
  \<open>_session_duration_minutes\<close>. \<open>if getattr(atelier, "duree_defaut_minutes", None)\<close> is a
  truth test: an unset default and a default of 0 both fall through to \<open>return 0\<close>.
\<close>

definition default_duration :: "atelier \<Rightarrow> int" where
  "default_duration a =
     (case duree_defaut_minutes a of
        None \<Rightarrow> 0
      | Some d \<Rightarrow> if d \<noteq> 0 then d else 0)"

definition session_duration_minutes :: "session \<Rightarrow> atelier \<Rightarrow> int" where
  "session_duration_minutes s a =
     (if py_upper (session_type s) = ''COLLECTIF'' then
        (let start = parse_time_minutes (heure_debut s);
             end = parse_time_minutes (heure_fin s)
         in (case (start, end) of
               (Some st, Some en) \<Rightarrow> if en > st then en - st else default_duration a
             | _ \<Rightarrow> default_duration a))
      else
        (let start = parse_time_minutes (rdv_debut s);
             end = parse_time_minutes (rdv_fin s)
         in (case (start, end) of
               (Some st, Some en) \<Rightarrow> if en > st then en - st else default_duration a
             | _ \<Rightarrow> default_duration a)))"

section \<open>Filter normalisation\<close>

text \<open>
  \<open>_parse_date\<close> calls \<open>datetime.strptime(s, "%Y-%m-%d")\<close> and turns every exception into
  \<open>None\<close>. The format accepts four digits for the year, a month written \<open>1[0-2]\<close>,
  \<open>0[1-9]\<close> or \<open>[1-9]\<close>, a day written \<open>3[01]\<close>, \<open>[12]\d\<close>, \<open>0[1-9]\<close>, \<open>[1-9]\<close> or a
  space and \<open>[1-9]\<close>, and nothing after the day; the fields must then name a date.
\<close>

definition month_token :: "string \<Rightarrow> int option" where
  "month_token s =
     (case s of
        [c] \<Rightarrow> if is_digit c \<and> c \<noteq> CHR ''0'' then Some (int (digit_val c)) else None
      | [c1, c2] \<Rightarrow>
          if c1 = CHR ''1'' \<and> (c2 = CHR ''0'' \<or> c2 = CHR ''1'' \<or> c2 = CHR ''2'')
            then Some (10 + int (digit_val c2))
          else if c1 = CHR ''0'' \<and> is_digit c2 \<and> c2 \<noteq> CHR ''0'' then Some (int (digit_val c2))
          else None
      | _ \<Rightarrow> None)"

definition day_token :: "string \<Rightarrow> int option" where
  "day_token s =
     (case s of
        [c] \<Rightarrow> if is_digit c \<and> c \<noteq> CHR ''0'' then Some (int (digit_val c)) else None
      | [c1, c2] \<Rightarrow>
          if c1 = CHR ''3'' \<and> (c2 = CHR ''0'' \<or> c2 = CHR ''1'') then Some (30 + int (digit_val c2))
          else if (c1 = CHR ''1'' \<or> c1 = CHR ''2'') \<and> is_digit c2
            then Some (10 * int (digit_val c1) + int (digit_val c2))
          else if (c1 = CHR ''0'' \<or> c1 = CHR '' '') \<and> is_digit c2 \<and> c2 \<noteq> CHR ''0''
            then Some (int (digit_val c2))
          else None
      | _ \<Rightarrow> None)"

definition parse_date :: "string \<Rightarrow> date option" where
  "parse_date s =
     (case s of
        y1 # y2 # y3 # y4 # dash # rest \<Rightarrow>
          if is_digit y1 \<and> is_digit y2 \<and> is_digit y3 \<and> is_digit y4 \<and> dash = CHR ''-'' then
            (let y = int (digit_val y1) * 1000 + int (digit_val y2) * 100
                       + int (digit_val y3) * 10 + int (digit_val y4);
                 mtok = takeWhile (\<lambda>c. c \<noteq> CHR ''-'') rest;
                 after = dropWhile (\<lambda>c. c \<noteq> CHR ''-'') rest
             in (case after of
                   [] \<Rightarrow> None
                 | _ # dtok \<Rightarrow>
                     (case (month_token mtok, day_token dtok) of
                        (Some m, Some d) \<Rightarrow>
                          (case mk_date y m d of Inl _ \<Rightarrow> None | Inr r \<Rightarrow> Some r)
                      | _ \<Rightarrow> None)))
          else None
      | _ \<Rightarrow> None)"

text \<open>
  The month-end idiom that \<open>_apply_preset\<close> writes out three times: from the first day of
  a month, \<open>base.replace(day=28) + timedelta(days=4)\<close> lands in the next month, and
  subtracting that date's own day number steps back to the last day of the month.
\<close>

definition month_end :: "date \<Rightarrow> py_error + date" where
  "month_end base =
     (case mk_date (year base) (month base) 28 of
        Inl e \<Rightarrow> Inl e
      | Inr d28 \<Rightarrow>
          (case date_add d28 4 of
             Inl e \<Rightarrow> Inl e
           | Inr next_month \<Rightarrow> date_add next_month (- day next_month)))"

definition quarter_range :: "int \<Rightarrow> int \<Rightarrow> py_error + date \<times> date" where
  "quarter_range y q =
     (let start_month = (q - 1) * 3 + 1
      in (case mk_date y start_month 1 of
            Inl e \<Rightarrow> Inl e
          | Inr start \<Rightarrow>
              (let end_month = start_month + 2
               in (case mk_date y end_month 1 of
                     Inl e \<Rightarrow> Inl e
                   | Inr end_base \<Rightarrow>
                       (case month_end end_base of
                          Inl e \<Rightarrow> Inl e
                        | Inr end \<Rightarrow> Inr (start, end))))))"

text \<open>
  \<open>_apply_preset\<close>. The argument \<open>now\<close> stands for \<open>date.today()\<close>, read when
  \<open>today\<close> is not given.
\<close>

definition apply_preset :: "string \<Rightarrow> date option \<Rightarrow> date \<Rightarrow> py_error + date \<times> date" where
  "apply_preset preset today now =
     (let p = py_strip (py_upper preset);
          t = (case today of None \<Rightarrow> now | Some d \<Rightarrow> d)
      in if p = ''TODAY'' then Inr (t, t)
         else if p = ''YESTERDAY'' then
           (case date_add t (- 1) of Inl e \<Rightarrow> Inl e | Inr y \<Rightarrow> Inr (y, y))
         else if p \<in> set [''THIS_MONTH'', ''MONTH_THIS''] then
           (case mk_date (year t) (month t) 1 of
              Inl e \<Rightarrow> Inl e
            | Inr start \<Rightarrow>
                (case month_end start of Inl e \<Rightarrow> Inl e | Inr end \<Rightarrow> Inr (start, end)))
         else if p \<in> set [''PREV_MONTH'', ''MONTH_PREV'', ''LAST_MONTH''] then
           (case mk_date (year t) (month t) 1 of
              Inl e \<Rightarrow> Inl e
            | Inr start_this \<Rightarrow>
                (case date_add start_this (- 1) of
                   Inl e \<Rightarrow> Inl e
                 | Inr end_prev \<Rightarrow>
                     (case mk_date (year end_prev) (month end_prev) 1 of
                        Inl e \<Rightarrow> Inl e
                      | Inr start_prev \<Rightarrow> Inr (start_prev, end_prev))))
         else if p \<in> set [''THIS_YEAR'', ''YEAR_THIS''] then
           (case mk_date (year t) 1 1 of
              Inl e \<Rightarrow> Inl e
            | Inr a \<Rightarrow> (case mk_date (year t) 12 31 of Inl e \<Rightarrow> Inl e | Inr b \<Rightarrow> Inr (a, b)))
         else if p \<in> set [''PREV_YEAR'', ''YEAR_PREV'', ''LAST_YEAR''] then
           (let y = year t - 1
            in (case mk_date y 1 1 of
                  Inl e \<Rightarrow> Inl e
                | Inr a \<Rightarrow> (case mk_date y 12 31 of Inl e \<Rightarrow> Inl e | Inr b \<Rightarrow> Inr (a, b))))
         else if p \<in> set [''THIS_QUARTER'', ''QUARTER_THIS''] then
           (let q = (month t - 1) div 3 + 1 in quarter_range (year t) q)
         else if p \<in> set [''PREV_QUARTER'', ''QUARTER_PREV'', ''LAST_QUARTER''] then
           (let q = (month t - 1) div 3 + 1;
                y = year t;
                q_prev = q - 1
            in if q_prev \<le> 0 then quarter_range (y - 1) 4 else quarter_range y q_prev)
         else Inr (t, t))"

record stats_filters =
  f_secteur :: "string option"
  f_atelier_id :: "int option"
  f_date_from :: "date option"
  f_date_to :: "date option"
  f_preset :: "string option"
  f_group_by :: string
  f_periode_id :: "int option"

record periode_financement =
  pf_id :: int
  pf_date_debut :: date
  pf_date_fin :: date

text \<open>\<open>x or None\<close> on an optional string and on an optional integer.\<close>

definition str_or_none :: "string option \<Rightarrow> string option" where
  "str_or_none v = (case v of None \<Rightarrow> None | Some s \<Rightarrow> if s = [] then None else Some s)"

definition int_or_none :: "int option \<Rightarrow> int option" where
  "int_or_none v = (case v of None \<Rightarrow> None | Some n \<Rightarrow> if n = 0 then None else Some n)"

text \<open>\<open>args.get(k1) or args.get(k2)\<close> on a mapping of strings.\<close>

definition get_or :: "(string \<rightharpoonup> string) \<Rightarrow> string \<Rightarrow> string \<Rightarrow> string option" where
  "get_or args k1 k2 =
     (case args k1 of
        None \<Rightarrow> args k2
      | Some v \<Rightarrow> if v = [] then args k2 else Some v)"

text \<open>\<open>int(v) if v not in (None, "", "None") else None\<close>.\<close>

definition int_param :: "string option \<Rightarrow> py_error + int option" where
  "int_param v =
     (case v of
        None \<Rightarrow> Inr None
      | Some s \<Rightarrow>
          if s = [] \<or> s = ''None'' then Inr None
          else (case py_int s of Inl e \<Rightarrow> Inl e | Inr n \<Rightarrow> Inr (Some n)))"

text \<open>\<open>db.session.get(PeriodeFinancement, id)\<close>: the row with that primary key, if any.\<close>

definition get_periode :: "periode_financement list \<Rightarrow> int \<Rightarrow> periode_financement option" where
  "get_periode ps i = find (\<lambda>p. pf_id p = i) ps"

text \<open>
  \<open>normalize_filters\<close>, with both calling styles: \<open>args\<close> is the optional mapping, the
  other arguments are the keyword arguments, each \<open>None\<close> when not passed. \<open>periodes\<close> is
  the stored table of saved periods and \<open>now\<close> is \<open>date.today()\<close>.
\<close>

definition normalize_filters ::
  "periode_financement list \<Rightarrow> date \<Rightarrow> (string \<rightharpoonup> string) option \<Rightarrow> string option \<Rightarrow> int option \<Rightarrow>
   string option \<Rightarrow> string option \<Rightarrow> string option \<Rightarrow> string option \<Rightarrow> int option \<Rightarrow>
   py_error + stats_filters" where
  "normalize_filters periodes now args secteur atelier_id date_from date_to preset group_by periode_id =
     (let secteur1 = (case args of
                        None \<Rightarrow> secteur
                      | Some m \<Rightarrow> if secteur = None then get_or m ''secteur'' ''sector'' else secteur);
          atelier_r = (case args of
                         None \<Rightarrow> Inr atelier_id
                       | Some m \<Rightarrow>
                           if atelier_id = None then int_param (get_or m ''atelier_id'' ''atelier'')
                           else Inr atelier_id)
      in (case atelier_r of
            Inl e \<Rightarrow> Inl e
          | Inr atelier_id1 \<Rightarrow>
             (let date_from1 = (case args of
                                  None \<Rightarrow> date_from
                                | Some m \<Rightarrow> if date_from = None then m ''date_from'' else date_from);
                  date_to1 = (case args of
                                None \<Rightarrow> date_to
                              | Some m \<Rightarrow> if date_to = None then m ''date_to'' else date_to);
                  preset1 = (case args of
                               None \<Rightarrow> preset
                             | Some m \<Rightarrow> if preset = None then m ''preset'' else preset);
                  group_by1 = (case args of
                                 None \<Rightarrow> group_by
                               | Some m \<Rightarrow> if group_by = None then m ''group_by'' else group_by);
                  periode_r = (case args of
                                 None \<Rightarrow> Inr periode_id
                               | Some m \<Rightarrow>
                                   if periode_id = None then int_param (get_or m ''periode_id'' ''periode'')
                                   else Inr periode_id)
              in (case periode_r of
                    Inl e \<Rightarrow> Inl e
                  | Inr periode_id1 \<Rightarrow>
                     (let flt = \<lparr>f_secteur = str_or_none secteur1,
                                 f_atelier_id = int_or_none atelier_id1,
                                 f_date_from = None,
                                 f_date_to = None,
                                 f_preset = str_or_none preset1,
                                 f_group_by = py_upper (case str_or_none group_by1 of
                                                          None \<Rightarrow> ''MONTH'' | Some g \<Rightarrow> g),
                                 f_periode_id = int_or_none periode_id1\<rparr>;
                          df = (case str_or_none date_from1 of None \<Rightarrow> None | Some s \<Rightarrow> parse_date s);
                          dt = (case str_or_none date_to1 of None \<Rightarrow> None | Some s \<Rightarrow> parse_date s);
                          (df1, dt1) =
                            (case f_periode_id flt of
                               Some pid \<Rightarrow>
                                 if df = None \<and> dt = None then
                                   (case get_periode periodes pid of
                                      Some p \<Rightarrow> (Some (pf_date_debut p), Some (pf_date_fin p))
                                    | None \<Rightarrow> (df, dt))
                                 else (df, dt)
                             | None \<Rightarrow> (df, dt))
                      in (case f_preset flt of
                            Some pr \<Rightarrow>
                              if df1 = None \<and> dt1 = None then
                                (case apply_preset pr None now of
                                   Inl e \<Rightarrow> Inl e
                                 | Inr (a, b) \<Rightarrow>
                                     Inr (flt\<lparr>f_date_from := Some a, f_date_to := Some b\<rparr>))
                              else Inr (flt\<lparr>f_date_from := df1, f_date_to := dt1\<rparr>)
                          | None \<Rightarrow> Inr (flt\<lparr>f_date_from := df1, f_date_to := dt1\<rparr>)))))))"

subsection \<open>Names and sample inputs used in the statements about filters\<close>


definition ymd :: "int \<Rightarrow> int \<Rightarrow> int \<Rightarrow> date" where
  "ymd y m d = \<lparr>year = y, month = m, day = d\<rparr>"

text \<open>A collective session whose end time lies before its start time, in a workshop with a
  default duration of 90 minutes.\<close>

definition session_reversed_times :: session where
  "session_reversed_times =
     \<lparr>s_id = 1, s_atelier_id = 1, s_secteur = ''Numerique'', session_type = ''COLLECTIF'',
      date_session = Some (ymd 2024 3 5), heure_debut = Some ''14:00'', heure_fin = Some ''13:00'',
      capacite = None, statut = ''realisee'', rdv_date = None, rdv_debut = None, rdv_fin = None,
      s_is_deleted = False\<rparr>"

definition atelier_default_90 :: atelier where
  "atelier_default_90 =
     \<lparr>a_id = 1, a_secteur = ''Numerique'', a_nom = ''Atelier'', type_atelier = ''COLLECTIF'',
      capacite_defaut = None, duree_defaut_minutes = Some 90, a_is_deleted = False\<rparr>"


section \<open>Scope and the session/presence accessor\<close>

record quartier =
  q_nom :: string
  q_is_qpv :: bool

record participant =
  pt_id :: int
  pt_nom :: string
  pt_prenom :: string
  pt_ville :: "string option"
  pt_genre :: "string option"
  pt_date_naissance :: "date option"
  pt_type_public :: string
  pt_quartier :: "quartier option"

text \<open>The tables of the store, each in the order in which the store returns its rows.\<close>

record db =
  db_ateliers :: "atelier list"
  db_sessions :: "session list"
  db_presences :: "presence list"
  db_participants :: "participant list"
  db_periodes :: "periode_financement list"

text \<open>
  The current user as the engine reads it: \<open>secteur_assigne\<close> and the permission codes
  reachable through the user's roles (\<open>User\<close> has no attribute \<open>secteur\<close>, so
  \<open>getattr(current_user, "secteur", None)\<close> is \<open>None\<close>).
\<close>

record actor =
  secteur_assigne :: "string option"
  perm_codes :: "string list"

definition has_perm :: "actor \<Rightarrow> string \<Rightarrow> bool" where
  "has_perm u code = (code \<in> set (perm_codes u))"

definition restricted_sentinel :: string where
  "restricted_sentinel = ''__restricted__''"

definition resolve_secteur_scope :: "actor \<Rightarrow> stats_filters \<Rightarrow> string option" where
  "resolve_secteur_scope u flt =
     (let user_sect = (case str_or_none (secteur_assigne u) of Some s \<Rightarrow> Some s | None \<Rightarrow> None);
          can_all = list_ex (has_perm u) [''scope:all_secteurs'', ''stats:view_all'', ''statsimpact:view_all'']
      in if can_all then str_or_none (f_secteur flt)
         else (case user_sect of
                 Some s \<Rightarrow> Some s
               | None \<Rightarrow> Some restricted_sentinel))"

text \<open>\<open>coalesce(rdv_date, date_session)\<close>, also written \<open>s.rdv_date or s.date_session\<close>.\<close>

definition session_date :: "session \<Rightarrow> date option" where
  "session_date s = (case rdv_date s of Some d \<Rightarrow> Some d | None \<Rightarrow> date_session s)"

text \<open>The join of sessions with their workshop on \<open>AtelierActivite.id == SessionActivite.atelier_id\<close>.\<close>

definition session_atelier_join :: "db \<Rightarrow> (session \<times> atelier) list" where
  "session_atelier_join d =
     concat (map (\<lambda>s. map (\<lambda>a. (s, a)) (filter (\<lambda>a. a_id a = s_atelier_id s) (db_ateliers d)))
                 (db_sessions d))"

text \<open>
  The row filter that \<open>_apply_common_filters\<close> and \<open>_query_sessions_for_period\<close> add to a
  query: soft deletion, the effective sector when it is a non-empty string, the workshop
  when one is selected, and the inclusive date bounds. A comparison with a session that has
  no date is not true in SQL, so such a session is dropped as soon as a bound is given.
\<close>

definition row_in_scope ::
  "string option \<Rightarrow> int option \<Rightarrow> date option \<Rightarrow> date option \<Rightarrow> session \<times> atelier \<Rightarrow> bool" where
  "row_in_scope eff_secteur atelier_sel date_from date_to r =
     (case r of (s, a) \<Rightarrow>
        \<not> s_is_deleted s \<and> \<not> a_is_deleted a \<and>
        (case eff_secteur of
           None \<Rightarrow> True
         | Some e \<Rightarrow> if e = [] then True else a_secteur a = e) \<and>
        (case atelier_sel of
           None \<Rightarrow> True
         | Some i \<Rightarrow> if i = 0 then True else a_id a = i) \<and>
        (case date_from of
           None \<Rightarrow> True
         | Some lo \<Rightarrow> (case session_date s of None \<Rightarrow> False | Some sd \<Rightarrow> date_le lo sd)) \<and>
        (case date_to of
           None \<Rightarrow> True
         | Some hi \<Rightarrow> (case session_date s of None \<Rightarrow> False | Some sd \<Rightarrow> date_le sd hi)))"

definition apply_common_filters ::
  "actor \<Rightarrow> stats_filters \<Rightarrow> (session \<times> atelier) list \<Rightarrow> (session \<times> atelier) list" where
  "apply_common_filters u flt rows =
     filter (row_in_scope (resolve_secteur_scope u flt) (f_atelier_id flt)
                          (f_date_from flt) (f_date_to flt)) rows"

definition query_sessions_for_period ::
  "actor \<Rightarrow> db \<Rightarrow> stats_filters \<Rightarrow> date option \<Rightarrow> date option \<Rightarrow> (session \<times> atelier) list" where
  "query_sessions_for_period u d flt date_from date_to =
     filter (row_in_scope (resolve_secteur_scope u flt) (f_atelier_id flt) date_from date_to)
            (session_atelier_join d)"

text \<open>The presences of the given sessions; no query is issued for an empty list of ids.\<close>

definition presences_of_sessions :: "db \<Rightarrow> int list \<Rightarrow> presence list" where
  "presences_of_sessions d session_ids =
     (if session_ids \<noteq> [] then filter (\<lambda>p. p_session_id p \<in> set session_ids) (db_presences d)
      else [])"

definition get_scoped_sessions_and_presences ::
  "actor \<Rightarrow> db \<Rightarrow> stats_filters \<Rightarrow> (session \<times> atelier) list \<times> presence list" where
  "get_scoped_sessions_and_presences u d flt =
     (let sessions_rows = apply_common_filters u flt (session_atelier_join d);
          session_ids = map (\<lambda>(s, a). s_id s) sessions_rows
      in (sessions_rows, presences_of_sessions d session_ids))"

section \<open>Numbers\<close>

text \<open>
  Python floats are read as the rational numbers they stand for. \<open>round(x, n)\<close> rounds to
  \<open>n\<close> decimals, a tie going to the even neighbour.
\<close>

definition round_half_even :: "rat \<Rightarrow> int" where
  "round_half_even x =
     (let f = \<lfloor>x\<rfloor>; r = x - of_int f
      in if r < 1 / 2 then f
         else if 1 / 2 < r then f + 1
         else if even f then f else f + 1)"

definition py_round :: "nat \<Rightarrow> rat \<Rightarrow> rat" where
  "py_round nd x = of_int (round_half_even (x * 10 ^ nd)) / 10 ^ nd"

text \<open>
  \<open>collections.Counter\<close> over a list: the keys in order of first occurrence, each with
  the number of its occurrences.
\<close>

fun counter_add :: "'a \<Rightarrow> ('a \<times> nat) list \<Rightarrow> ('a \<times> nat) list" where
  "counter_add k [] = [(k, 1)]"
| "counter_add k ((k', n) # rest) =
     (if k = k' then (k', n + 1) # rest else (k', n) # counter_add k rest)"

definition counter :: "'a list \<Rightarrow> ('a \<times> nat) list" where
  "counter xs = fold counter_add xs []"

section \<open>Frequency and retention\<close>

record freq_buckets =
  b_1 :: nat
  b_2_3 :: nat
  b_4_6 :: nat
  b_7_plus :: nat

record freq_stats =
  fr_uniques :: nat
  fr_presences_total :: nat
  fr_freq_avg :: rat
  fr_returning :: nat
  fr_returning_rate :: rat
  fr_regulars_4plus :: nat
  fr_buckets :: freq_buckets

definition bucket_step :: "nat \<Rightarrow> freq_buckets \<Rightarrow> freq_buckets" where
  "bucket_step n b =
     (if n \<le> 1 then b\<lparr>b_1 := b_1 b + 1\<rparr>
      else if 2 \<le> n \<and> n \<le> 3 then b\<lparr>b_2_3 := b_2_3 b + 1\<rparr>
      else if 4 \<le> n \<and> n \<le> 6 then b\<lparr>b_4_6 := b_4_6 b + 1\<rparr>
      else b\<lparr>b_7_plus := b_7_plus b + 1\<rparr>)"

definition compute_participation_frequency_stats :: "actor \<Rightarrow> db \<Rightarrow> stats_filters \<Rightarrow> freq_stats" where
  "compute_participation_frequency_stats u d flt =
     (let (sessions_rows, presences) = get_scoped_sessions_and_presences u d flt;
          counts = counter (map p_participant_id presences);
          uniques = length counts;
          pres_total = sum_list (map snd counts);
          freq_avg = (if uniques \<noteq> 0 then of_nat pres_total / of_nat uniques else 0);
          returning = length (filter (\<lambda>n. 2 \<le> n) (map snd counts));
          returning_rate = (if uniques \<noteq> 0 then of_nat returning / of_nat uniques else 0);
          buckets = fold bucket_step (map snd counts) \<lparr>b_1 = 0, b_2_3 = 0, b_4_6 = 0, b_7_plus = 0\<rparr>;
          regulars_4plus = length (filter (\<lambda>n. 4 \<le> n) (map snd counts))
      in \<lparr>fr_uniques = uniques,
          fr_presences_total = pres_total,
          fr_freq_avg = py_round 2 freq_avg,
          fr_returning = returning,
          fr_returning_rate = py_round 1 (returning_rate * 100),
          fr_regulars_4plus = regulars_4plus,
          fr_buckets = buckets\<rparr>)"

section \<open>Insertion-ordered dictionaries and stable sorting\<close>

text \<open>
  A Python \<open>dict\<close> keeps its keys in insertion order; it is modelled as an association
  list. \<open>upsert k dflt f\<close> applies \<open>f\<close> to the entry of \<open>k\<close>, creating the entry from
  \<open>dflt\<close> at the end when the key is new.
\<close>

fun upsert :: "'k \<Rightarrow> 'v \<Rightarrow> ('v \<Rightarrow> 'v) \<Rightarrow> ('k \<times> 'v) list \<Rightarrow> ('k \<times> 'v) list" where
  "upsert k dflt f [] = [(k, f dflt)]"
| "upsert k dflt f ((k', v) # rest) =
     (if k = k' then (k', f v) # rest else (k', v) # upsert k dflt f rest)"

definition counter_get :: "('k \<times> nat) list \<Rightarrow> 'k \<Rightarrow> nat" where
  "counter_get c k = (case map_of c k of None \<Rightarrow> 0 | Some n \<Rightarrow> n)"

text \<open>
  \<open>list.sort\<close> and \<open>sorted\<close> are stable. \<open>sort_by lt xs\<close> sorts by the strict order \<open>lt\<close>
  on the sort keys and keeps elements with equal keys in their original order.
\<close>

fun insert_by :: "('a \<Rightarrow> 'a \<Rightarrow> bool) \<Rightarrow> 'a \<Rightarrow> 'a list \<Rightarrow> 'a list" where
  "insert_by lt x [] = [x]"
| "insert_by lt x (y # ys) = (if lt y x then y # insert_by lt x ys else x # y # ys)"

definition sort_by :: "('a \<Rightarrow> 'a \<Rightarrow> bool) \<Rightarrow> 'a list \<Rightarrow> 'a list" where
  "sort_by lt xs = foldr (insert_by lt) xs []"

text \<open>The order of Python strings: lexicographic by code point.\<close>

fun str_lt :: "string \<Rightarrow> string \<Rightarrow> bool" where
  "str_lt [] [] = False"
| "str_lt [] (y # ys) = True"
| "str_lt (x # xs) [] = False"
| "str_lt (x # xs) (y # ys) = ((of_char x :: nat) < of_char y \<or> (x = y \<and> str_lt xs ys))"

section \<open>Occupancy\<close>

definition DEFAULT_COLLECTIF_CAPACITY :: int where
  "DEFAULT_COLLECTIF_CAPACITY = 12"

record occ_buckets =
  ob_lt_50 :: nat
  ob_50_79 :: nat
  ob_80_99 :: nat
  ob_100_plus :: nat

record occ_acc =
  oa_atelier_id :: "int option"
  oa_secteur :: string
  oa_nom :: string
  oa_sessions :: nat
  oa_presences :: nat
  oa_capacity_total :: int
  oa_fill_rates :: "rat list"

record occ_row =
  or_atelier_id :: "int option"
  or_secteur :: string
  or_nom :: string
  or_sessions :: nat
  or_presences :: nat
  or_capacity_total :: int
  or_avg_fill_rate_pct :: rat

text \<open>The result mapping; \<open>default_capacity\<close> is present only when some session matched.\<close>

record occ_stats =
  collective_sessions :: nat
  collective_presences :: nat
  oc_avg_fill_rate_pct :: "rat option"
  oc_buckets :: occ_buckets
  oc_per_atelier :: "occ_row list"
  oc_default_capacity :: "int option"

text \<open>
  The query of \<open>compute_occupancy_stats\<close>. It reads \<open>flt.secteur\<close> and compares it with the
  session's own \<open>secteur\<close> column; the scope resolver is not consulted.
\<close>

definition occupancy_row_selected :: "stats_filters \<Rightarrow> session \<times> atelier \<Rightarrow> bool" where
  "occupancy_row_selected flt r =
     (case r of (s, a) \<Rightarrow>
        \<not> s_is_deleted s \<and> \<not> a_is_deleted a \<and>
        (case f_secteur flt of
           None \<Rightarrow> True
         | Some e \<Rightarrow> if e = [] then True else s_secteur s = e) \<and>
        (case f_atelier_id flt of
           None \<Rightarrow> True
         | Some i \<Rightarrow> if i = 0 then True else s_atelier_id s = i) \<and>
        (case f_date_from flt of
           None \<Rightarrow> True
         | Some lo \<Rightarrow> (case session_date s of None \<Rightarrow> False | Some sd \<Rightarrow> date_le lo sd)) \<and>
        (case f_date_to flt of
           None \<Rightarrow> True
         | Some hi \<Rightarrow> (case session_date s of None \<Rightarrow> False | Some sd \<Rightarrow> date_le sd hi)) \<and>
        session_type s = ''COLLECTIF'')"

definition occupancy_sessions :: "db \<Rightarrow> stats_filters \<Rightarrow> (session \<times> atelier) list" where
  "occupancy_sessions d flt = filter (occupancy_row_selected flt) (session_atelier_join d)"

text \<open>Lines 93 to 95 of \<open>occupancy.py\<close>: the capacity a session is measured against.\<close>

definition effective_capacity :: "session \<Rightarrow> atelier \<Rightarrow> int" where
  "effective_capacity s a =
     (let cap = (case capacite s of Some c \<Rightarrow> Some c | None \<Rightarrow> capacite_defaut a)
      in (case cap of
            None \<Rightarrow> DEFAULT_COLLECTIF_CAPACITY
          | Some c \<Rightarrow> if c \<le> 0 then DEFAULT_COLLECTIF_CAPACITY else c))"

definition fill_rate :: "(int \<times> nat) list \<Rightarrow> session \<times> atelier \<Rightarrow> rat" where
  "fill_rate pres_by_session r =
     (case r of (s, a) \<Rightarrow>
        (let cap = effective_capacity s a;
             pres = counter_get pres_by_session (s_id s)
         in if cap \<noteq> 0 then of_nat pres / of_int cap else 0))"

definition occ_bucket_step :: "rat \<Rightarrow> occ_buckets \<Rightarrow> occ_buckets" where
  "occ_bucket_step rate b =
     (let pct = rate * 100
      in if pct < 50 then b\<lparr>ob_lt_50 := ob_lt_50 b + 1\<rparr>
         else if pct < 80 then b\<lparr>ob_50_79 := ob_50_79 b + 1\<rparr>
         else if pct < 100 then b\<lparr>ob_80_99 := ob_80_99 b + 1\<rparr>
         else b\<lparr>ob_100_plus := ob_100_plus b + 1\<rparr>)"

definition occ_acc_default :: occ_acc where
  "occ_acc_default =
     \<lparr>oa_atelier_id = None, oa_secteur = [], oa_nom = [], oa_sessions = 0, oa_presences = 0,
      oa_capacity_total = 0, oa_fill_rates = []\<rparr>"

text \<open>One turn of the loop over the selected sessions (lines 92 to 118).\<close>

definition occ_step ::
  "(int \<times> nat) list \<Rightarrow> session \<times> atelier \<Rightarrow>
   rat list \<times> occ_buckets \<times> (int \<times> occ_acc) list \<Rightarrow> rat list \<times> occ_buckets \<times> (int \<times> occ_acc) list" where
  "occ_step pres_by_session r st =
     (case (r, st) of ((s, a), (fill_rates, bucket_counts, per_atelier)) \<Rightarrow>
        (let cap = effective_capacity s a;
             pres = counter_get pres_by_session (s_id s);
             rate = fill_rate pres_by_session (s, a)
         in (fill_rates @ [rate],
             occ_bucket_step rate bucket_counts,
             upsert (a_id a) occ_acc_default
               (\<lambda>e. e\<lparr>oa_atelier_id := Some (a_id a),
                       oa_secteur := a_secteur a,
                       oa_nom := a_nom a,
                       oa_sessions := oa_sessions e + 1,
                       oa_presences := oa_presences e + pres,
                       oa_capacity_total := oa_capacity_total e + cap,
                       oa_fill_rates := oa_fill_rates e @ [rate]\<rparr>)
               per_atelier)))"

definition mean :: "rat list \<Rightarrow> rat" where
  "mean rs = (if rs \<noteq> [] then sum_list rs / of_nat (length rs) else 0)"

definition occ_row_of :: "occ_acc \<Rightarrow> occ_row" where
  "occ_row_of e =
     \<lparr>or_atelier_id = oa_atelier_id e,
      or_secteur = oa_secteur e,
      or_nom = oa_nom e,
      or_sessions = oa_sessions e,
      or_presences = oa_presences e,
      or_capacity_total = oa_capacity_total e,
      or_avg_fill_rate_pct = py_round 1 (mean (oa_fill_rates e) * 100)\<rparr>"

text \<open>The sort key \<open>(-avg_fill_rate_pct, -sessions, nom)\<close>, compared as a tuple.\<close>

definition occ_row_lt :: "occ_row \<Rightarrow> occ_row \<Rightarrow> bool" where
  "occ_row_lt x y =
     (- or_avg_fill_rate_pct x < - or_avg_fill_rate_pct y \<or>
      (or_avg_fill_rate_pct x = or_avg_fill_rate_pct y \<and>
       (- int (or_sessions x) < - int (or_sessions y) \<or>
        (or_sessions x = or_sessions y \<and> str_lt (or_nom x) (or_nom y)))))"

definition compute_occupancy_stats :: "db \<Rightarrow> stats_filters \<Rightarrow> occ_stats" where
  "compute_occupancy_stats d flt =
     (let sessions_rows = occupancy_sessions d flt
      in if sessions_rows = [] then
           \<lparr>collective_sessions = 0,
            collective_presences = 0,
            oc_avg_fill_rate_pct = None,
            oc_buckets = \<lparr>ob_lt_50 = 0, ob_50_79 = 0, ob_80_99 = 0, ob_100_plus = 0\<rparr>,
            oc_per_atelier = [],
            oc_default_capacity = None\<rparr>
         else
           (let session_ids = map (\<lambda>(s, a). s_id s) sessions_rows;
                pres_rows = map p_session_id
                              (filter (\<lambda>p. p_session_id p \<in> set session_ids) (db_presences d));
                pres_by_session = counter pres_rows;
                total_presences = sum_list (map snd pres_by_session);
                (fill_rates, bucket_counts, per_atelier) =
                   fold (occ_step pres_by_session) sessions_rows
                        ([], \<lparr>ob_lt_50 = 0, ob_50_79 = 0, ob_80_99 = 0, ob_100_plus = 0\<rparr>, []);
                avg_fill = mean fill_rates;
                per_atelier_list = sort_by occ_row_lt (map (\<lambda>(aid, e). occ_row_of e) per_atelier)
            in \<lparr>collective_sessions = length sessions_rows,
                collective_presences = total_presences,
                oc_avg_fill_rate_pct = Some (py_round 1 (avg_fill * 100)),
                oc_buckets = bucket_counts,
                oc_per_atelier = per_atelier_list,
                oc_default_capacity = Some DEFAULT_COLLECTIF_CAPACITY\<rparr>))"

section \<open>Volume and activity\<close>

subsection \<open>Labels\<close>

fun str_of_nat :: "nat \<Rightarrow> string" where
  "str_of_nat n =
     (if n < 10 then [char_of (48 + n)]
      else str_of_nat (n div 10) @ [char_of (48 + n mod 10)])"

definition str_of_int :: "int \<Rightarrow> string" where
  "str_of_int i = (if i < 0 then CHR ''-'' # str_of_nat (nat (- i)) else str_of_nat (nat i))"

text \<open>\<open>f"{n:02d}"\<close> and the four-digit year of \<open>strftime("%Y")\<close>.\<close>

definition pad_left :: "nat \<Rightarrow> string \<Rightarrow> string" where
  "pad_left w s = replicate (w - length s) CHR ''0'' @ s"

definition month_label :: "int \<Rightarrow> int \<Rightarrow> string" where
  "month_label y m = str_of_int y @ ''-'' @ pad_left 2 (str_of_int m)"

definition quarter_label :: "int \<Rightarrow> int \<Rightarrow> string" where
  "quarter_label y q = str_of_int y @ ''-Q'' @ str_of_int q"

definition group_label :: "date \<Rightarrow> string \<Rightarrow> (int \<times> int \<times> int) \<times> string" where
  "group_label d group_by =
     (let gb = py_upper (if group_by = [] then ''MONTH'' else group_by)
      in if gb = ''DAY'' then
           ((year d, month d, day d),
            pad_left 4 (str_of_int (year d)) @ ''-'' @ pad_left 2 (str_of_int (month d)) @ ''-''
              @ pad_left 2 (str_of_int (day d)))
         else if gb = ''YEAR'' then ((year d, 0, 0), str_of_int (year d))
         else if gb = ''QUARTER'' then
           (let q = (month d - 1) div 3 + 1 in ((year d, q, 0), quarter_label (year d) q))
         else ((year d, month d, 0), month_label (year d) (month d)))"

subsection \<open>Result records\<close>

record volume_kpi =
  k_sessions :: nat
  k_presences :: nat
  k_uniques :: nat
  k_new_participants :: nat
  k_hours_animator :: rat
  k_hours_people :: rat
  k_avg_per_session :: rat
  k_activity_duration_days :: "int option"

record series_acc =
  sa_label :: string
  sa_sessions :: nat
  sa_presences :: nat
  sa_uniques :: "int list"

record series_row =
  sr_label :: string
  sr_sessions :: nat
  sr_presences :: nat
  sr_uniques :: nat

record atelier_acc =
  pa_atelier_id :: int
  pa_secteur :: string
  pa_nom :: string
  pa_type_atelier :: string
  pa_sessions_planned :: nat
  pa_sessions_real :: nat
  pa_planned_capacity :: int
  pa_real_capacity :: int
  pa_planned_hours :: rat
  pa_real_hours :: rat
  pa_sessions :: nat
  pa_presences :: nat
  pa_uniques :: "int list"
  pa_hours_animator :: rat
  pa_hours_people :: rat
  pa_dates :: "date list"

record atelier_row =
  ar_atelier_id :: int
  ar_secteur :: string
  ar_nom :: string
  ar_type_atelier :: string
  ar_sessions :: nat
  ar_presences :: nat
  ar_uniques :: nat
  ar_hours_animator :: rat
  ar_hours_people :: rat
  ar_is_new_vs_previous :: bool
  ar_sessions_planned :: nat
  ar_sessions_real :: nat
  ar_planned_capacity :: int
  ar_real_capacity :: int
  ar_planned_hours :: rat
  ar_real_hours :: rat
  ar_occupation_rate :: rat
  ar_avg_per_session_real :: rat
  ar_activity_duration_days :: "int option"

record sector_row =
  sc_secteur :: string
  sc_sessions :: nat
  sc_presences :: nat
  sc_uniques :: nat
  sc_hours_animator :: rat
  sc_hours_people :: rat

record volume_stats =
  v_kpi :: volume_kpi
  v_time_series :: "series_row list"
  v_heatmap :: "(string \<times> (string \<times> nat) list) list"
  v_table_ateliers :: "atelier_row list"
  v_top_ateliers :: "atelier_row list"
  v_sectors_summary :: "sector_row list"
  v_has_previous_period :: bool
  v_base_by_secteur :: "(string \<times> atelier_row list) list"

subsection \<open>Helpers of the computation\<close>

text \<open>A set built by \<open>add\<close>: the distinct elements in order of first insertion.\<close>

definition set_add :: "'a \<Rightarrow> 'a list \<Rightarrow> 'a list" where
  "set_add x xs = (if x \<in> set xs then xs else xs @ [x])"

definition min_date :: "date list \<Rightarrow> date option" where
  "min_date ds = (case ds of [] \<Rightarrow> None | x # xs \<Rightarrow> Some (fold date_min xs x))"

definition max_date :: "date list \<Rightarrow> date option" where
  "max_date ds = (case ds of [] \<Rightarrow> None | x # xs \<Rightarrow> Some (fold date_max xs x))"

text \<open>\<open>(max(dates) - min(dates)).days\<close> when there is a date, else \<open>None\<close>.\<close>

definition span_of_dates :: "date list \<Rightarrow> int option" where
  "span_of_dates ds =
     (case (min_date ds, max_date ds) of
        (Some lo, Some hi) \<Rightarrow> Some (date_diff_days hi lo)
      | _ \<Rightarrow> None)"

text \<open>
  The comparison window: as many days as the current window, ending the day before it
  starts. The two subtractions raise \<open>OverflowError\<close> when they pass the first date.
\<close>

definition previous_window :: "date \<Rightarrow> date \<Rightarrow> py_error + date \<times> date" where
  "previous_window df dt =
     (let span_days = date_diff_days dt df + 1
      in (case date_add df (- 1) of
            Inl e \<Rightarrow> Inl e
          | Inr prev_end \<Rightarrow>
              (if 0 < span_days then
                 (case date_add prev_end (- (span_days - 1)) of
                    Inl e \<Rightarrow> Inl e
                  | Inr prev_start \<Rightarrow> Inr (prev_start, prev_end))
               else Inr (prev_end, prev_end))))"

text \<open>
  The count of new participants: per participant, the earliest date over the presences at
  non-deleted sessions (of any sector and workshop), kept when it lies within the bounds.
\<close>

definition first_seen_dates :: "db \<Rightarrow> (int \<times> date option) list" where
  "first_seen_dates d =
     (let joined = concat (map (\<lambda>p. map (\<lambda>s. (p_participant_id p, session_date s))
                                      (filter (\<lambda>s. s_id s = p_session_id p \<and> \<not> s_is_deleted s)
                                              (db_sessions d)))
                               (db_presences d));
          pids = remdups (map fst joined)
      in map (\<lambda>pid. (pid, min_date (concat (map (\<lambda>(q, sd). if q = pid then
                                               (case sd of None \<Rightarrow> [] | Some x \<Rightarrow> [x]) else [])
                                             joined))))
             pids)"

definition count_new_participants :: "db \<Rightarrow> date option \<Rightarrow> date option \<Rightarrow> nat" where
  "count_new_participants d date_from date_to =
     length (filter (\<lambda>(pid, fd).
                (case date_from of
                   None \<Rightarrow> True
                 | Some lo \<Rightarrow> (case fd of None \<Rightarrow> False | Some x \<Rightarrow> date_le lo x)) \<and>
                (case date_to of
                   None \<Rightarrow> True
                 | Some hi \<Rightarrow> (case fd of None \<Rightarrow> False | Some x \<Rightarrow> date_le x hi)))
              (first_seen_dates d))"

text \<open>The truth test of an optional date: a date is never falsy.\<close>

definition is_set :: "'a option \<Rightarrow> bool" where
  "is_set x = (case x of None \<Rightarrow> False | Some v \<Rightarrow> True)"

definition new_atelier_acc :: "atelier \<Rightarrow> atelier_acc" where
  "new_atelier_acc a =
     \<lparr>pa_atelier_id = a_id a, pa_secteur = a_secteur a, pa_nom = a_nom a,
      pa_type_atelier = type_atelier a,
      pa_sessions_planned = 0, pa_sessions_real = 0,
      pa_planned_capacity = 0, pa_real_capacity = 0,
      pa_planned_hours = 0, pa_real_hours = 0,
      pa_sessions = 0, pa_presences = 0, pa_uniques = [],
      pa_hours_animator = 0, pa_hours_people = 0, pa_dates = []\<rparr>"

definition is_real :: "session \<Rightarrow> bool" where
  "is_real s = (py_lower (statut s) \<noteq> ''annulee'')"

text \<open>
  \<open>session.capacite if session.capacite is not None else getattr(atelier, "capacite_defaut", 0) or 0\<close>,
  then \<open>int(cap or 0)\<close>.
\<close>

definition rollup_capacity :: "session \<Rightarrow> atelier \<Rightarrow> int" where
  "rollup_capacity s a =
     (case capacite s of
        Some c \<Rightarrow> c
      | None \<Rightarrow> (case capacite_defaut a of None \<Rightarrow> 0 | Some c \<Rightarrow> c))"

text \<open>
  What one turn of the loop over the sessions (lines 370 to 423) does to the entry of the
  session's workshop. The \<open>continue\<close> of line 404 ends the turn when the duration is not
  positive, before the hours and before the capacities are added.
\<close>

definition atelier_acc_step :: "session \<Rightarrow> atelier \<Rightarrow> nat \<Rightarrow> atelier_acc \<Rightarrow> atelier_acc" where
  "atelier_acc_step s a count_p e =
     (let e1 = e\<lparr>pa_sessions := pa_sessions e + 1, pa_sessions_planned := pa_sessions_planned e + 1\<rparr>;
          e2 = (if is_real s then e1\<lparr>pa_sessions_real := pa_sessions_real e1 + 1\<rparr> else e1);
          e3 = (case session_date s of
                  None \<Rightarrow> e2
                | Some sd \<Rightarrow> e2\<lparr>pa_dates := pa_dates e2 @ [sd]\<rparr>);
          mins = session_duration_minutes s a
      in if mins \<le> 0 then e3
         else
           (let h = of_int mins / 60;
                e4 = e3\<lparr>pa_hours_animator := pa_hours_animator e3 + h,
                        pa_planned_hours := pa_planned_hours e3 + h\<rparr>;
                e5 = (if is_real s then e4\<lparr>pa_real_hours := pa_real_hours e4 + h\<rparr> else e4);
                e6 = (if py_upper (session_type s) = ''COLLECTIF''
                        then e5\<lparr>pa_hours_people := pa_hours_people e5 + h * of_nat count_p\<rparr>
                      else if 0 < count_p then e5\<lparr>pa_hours_people := pa_hours_people e5 + h\<rparr>
                      else e5);
                cap = rollup_capacity s a;
                e7 = e6\<lparr>pa_planned_capacity := pa_planned_capacity e6 + cap\<rparr>;
                e8 = (if is_real s then e7\<lparr>pa_real_capacity := pa_real_capacity e7 + cap\<rparr> else e7)
            in e8))"

definition volume_step ::
  "(int \<times> nat) list \<Rightarrow> session \<times> atelier \<Rightarrow>
   rat \<times> rat \<times> (int \<times> atelier_acc) list \<Rightarrow> rat \<times> rat \<times> (int \<times> atelier_acc) list" where
  "volume_step pres_by_session r st =
     (case (r, st) of ((s, a), (hours_animator, hours_people, per_atelier)) \<Rightarrow>
        (let count_p = counter_get pres_by_session (s_id s);
             per_atelier' = upsert (a_id a) (new_atelier_acc a) (atelier_acc_step s a count_p) per_atelier;
             mins = session_duration_minutes s a
         in if mins \<le> 0 then (hours_animator, hours_people, per_atelier')
            else
              (let h = of_int mins / 60
               in (hours_animator + h,
                   (if py_upper (session_type s) = ''COLLECTIF'' then hours_people + h * of_nat count_p
                    else if 0 < count_p then hours_people + h
                    else hours_people),
                   per_atelier'))))"

definition new_series_acc :: "string \<Rightarrow> series_acc" where
  "new_series_acc label = \<lparr>sa_label = label, sa_sessions = 0, sa_presences = 0, sa_uniques = []\<rparr>"

text \<open>\<open>d.setdefault(k, v)\<close> on an insertion-ordered dictionary.\<close>

definition setdefault :: "'k \<Rightarrow> 'v \<Rightarrow> ('k \<times> 'v) list \<Rightarrow> ('k \<times> 'v) list" where
  "setdefault k v m = (if map_of m k = None then m @ [(k, v)] else m)"

definition series_session_step ::
  "string \<Rightarrow> session \<times> atelier \<Rightarrow>
   (string \<times> series_acc) list \<times> (string \<times> int \<times> int \<times> int) list \<Rightarrow>
   (string \<times> series_acc) list \<times> (string \<times> int \<times> int \<times> int) list" where
  "series_session_step group_by r st =
     (case (r, st) of ((s, a), (series, series_sort)) \<Rightarrow>
        (case session_date s of
           None \<Rightarrow> (series, series_sort)
         | Some sd \<Rightarrow>
             (case group_label sd group_by of (sk, label) \<Rightarrow>
                (upsert label (new_series_acc label) (\<lambda>e. e\<lparr>sa_sessions := sa_sessions e + 1\<rparr>) series,
                 setdefault label sk series_sort))))"

definition series_presence_step ::
  "string \<Rightarrow> (int \<rightharpoonup> date) \<Rightarrow> presence \<Rightarrow>
   (string \<times> series_acc) list \<times> (string \<times> int \<times> int \<times> int) list \<Rightarrow>
   (string \<times> series_acc) list \<times> (string \<times> int \<times> int \<times> int) list" where
  "series_presence_step group_by session_date_map p st =
     (case st of (series, series_sort) \<Rightarrow>
        (case session_date_map (p_session_id p) of
           None \<Rightarrow> (series, series_sort)
         | Some sd \<Rightarrow>
             (case group_label sd group_by of (sk, label) \<Rightarrow>
                (upsert label (new_series_acc label)
                   (\<lambda>e. e\<lparr>sa_presences := sa_presences e + 1,
                           sa_uniques := set_add (p_participant_id p) (sa_uniques e)\<rparr>) series,
                 setdefault label sk series_sort))))"

definition triple_lt :: "int \<times> int \<times> int \<Rightarrow> int \<times> int \<times> int \<Rightarrow> bool" where
  "triple_lt x y =
     (case (x, y) of ((a, b, c), (a', b', c')) \<Rightarrow>
        a < a' \<or> (a = a' \<and> (b < b' \<or> (b = b' \<and> c < c'))))"

definition series_key :: "(string \<times> int \<times> int \<times> int) list \<Rightarrow> string \<Rightarrow> int \<times> int \<times> int" where
  "series_key series_sort label =
     (case map_of series_sort label of None \<Rightarrow> (9999, 99, 99) | Some sk \<Rightarrow> sk)"

definition heat_days :: "string list" where
  "heat_days = [''Lun'', ''Mar'', ''Mer'', ''Jeu'', ''Ven'', ''Sam'', ''Dim'']"

definition heat_buckets :: "(int \<times> int) list" where
  "heat_buckets = [(8, 10), (10, 12), (12, 14), (14, 16), (16, 18), (18, 20)]"

definition bucket_label :: "int \<times> int \<Rightarrow> string" where
  "bucket_label ab = (case ab of (a, b) \<Rightarrow> pad_left 2 (str_of_int a) @ ''-'' @ pad_left 2 (str_of_int b))"

definition heat_init :: "(string \<times> (string \<times> nat) list) list" where
  "heat_init = map (\<lambda>dl. (dl, map (\<lambda>ab. (bucket_label ab, 0)) heat_buckets)) heat_days"

definition heat_step ::
  "session \<times> atelier \<Rightarrow> (string \<times> (string \<times> nat) list) list \<Rightarrow> (string \<times> (string \<times> nat) list) list" where
  "heat_step r heat =
     (case r of (s, a) \<Rightarrow>
        (case session_date s of
           None \<Rightarrow> heat
         | Some sd \<Rightarrow>
             (let day_label = heat_days ! weekday sd;
                  t = (if py_upper (session_type s) = ''COLLECTIF'' then heure_debut s else rdv_debut s)
              in (case parse_time_minutes t of
                    None \<Rightarrow> heat
                  | Some mins \<Rightarrow>
                      (case find (\<lambda>(a, b). a * 60 \<le> mins \<and> mins < b * 60) heat_buckets of
                         None \<Rightarrow> heat
                       | Some ab \<Rightarrow>
                           map (\<lambda>(dl, row).
                                  if dl = day_label
                                  then (dl, map (\<lambda>(bl, c). if bl = bucket_label ab then (bl, c + 1)
                                                             else (bl, c)) row)
                                  else (dl, row)) heat)))))"

text \<open>
  The loop of lines 503 to 508: a presence is added to its workshop's entry unless the
  workshop id is missing, is 0, or has no entry.
\<close>

definition atelier_presence_step ::
  "(int \<rightharpoonup> int) \<Rightarrow> presence \<Rightarrow> (int \<times> atelier_acc) list \<Rightarrow> (int \<times> atelier_acc) list" where
  "atelier_presence_step session_to_atelier p per_atelier =
     (case session_to_atelier (p_session_id p) of
        None \<Rightarrow> per_atelier
      | Some aid \<Rightarrow>
          if aid = 0 \<or> map_of per_atelier aid = None then per_atelier
          else map (\<lambda>(k, e). if k = aid
                               then (k, e\<lparr>pa_presences := pa_presences e + 1,
                                          pa_uniques := set_add (p_participant_id p) (pa_uniques e)\<rparr>)
                               else (k, e)) per_atelier)"

definition atelier_row_of :: "int list option \<Rightarrow> int \<times> atelier_acc \<Rightarrow> atelier_row" where
  "atelier_row_of previous_atelier_ids ke =
     (case ke of (aid, obj) \<Rightarrow>
        \<lparr>ar_atelier_id = aid,
         ar_secteur = pa_secteur obj,
         ar_nom = pa_nom obj,
         ar_type_atelier = pa_type_atelier obj,
         ar_sessions = pa_sessions obj,
         ar_presences = pa_presences obj,
         ar_uniques = length (pa_uniques obj),
         ar_hours_animator = py_round 2 (pa_hours_animator obj),
         ar_hours_people = py_round 2 (pa_hours_people obj),
         ar_is_new_vs_previous =
           (case previous_atelier_ids of None \<Rightarrow> False | Some prev \<Rightarrow> aid \<notin> set prev),
         ar_sessions_planned = pa_sessions_planned obj,
         ar_sessions_real = pa_sessions_real obj,
         ar_planned_capacity = pa_planned_capacity obj,
         ar_real_capacity = pa_real_capacity obj,
         ar_planned_hours = py_round 2 (pa_planned_hours obj),
         ar_real_hours = py_round 2 (pa_real_hours obj),
         ar_occupation_rate =
           py_round 1 (if pa_real_capacity obj \<noteq> 0
                       then of_nat (pa_presences obj) / of_int (pa_real_capacity obj) * 100 else 0),
         ar_avg_per_session_real =
           py_round 2 (if pa_sessions_real obj \<noteq> 0
                       then of_nat (pa_presences obj) / of_nat (pa_sessions_real obj) else 0),
         ar_activity_duration_days = span_of_dates (pa_dates obj)\<rparr>)"

text \<open>The key \<open>(presences, sessions)\<close> with \<open>reverse=True\<close>: larger keys first.\<close>

definition atelier_row_before :: "atelier_row \<Rightarrow> atelier_row \<Rightarrow> bool" where
  "atelier_row_before x y =
     (ar_presences y < ar_presences x \<or> (ar_presences x = ar_presences y \<and> ar_sessions y < ar_sessions x))"

definition sector_row_before :: "sector_row \<Rightarrow> sector_row \<Rightarrow> bool" where
  "sector_row_before x y =
     (sc_presences y < sc_presences x \<or> (sc_presences x = sc_presences y \<and> sc_sessions y < sc_sessions x))"

definition non_renseigne :: string where
  "non_renseigne = ''(Non renseign'' @ [CHR 0xE9] @ '')''"

definition secteur_or_default :: "string \<Rightarrow> string" where
  "secteur_or_default s = (if s = [] then non_renseigne else s)"

definition new_sector_row :: "string \<Rightarrow> sector_row" where
  "new_sector_row sect =
     \<lparr>sc_secteur = sect, sc_sessions = 0, sc_presences = 0, sc_uniques = 0,
      sc_hours_animator = 0, sc_hours_people = 0\<rparr>"

definition sector_step :: "atelier_row \<Rightarrow> (string \<times> sector_row) list \<Rightarrow> (string \<times> sector_row) list" where
  "sector_step row agg =
     (let sect = secteur_or_default (ar_secteur row)
      in upsert sect (new_sector_row sect)
           (\<lambda>v. v\<lparr>sc_sessions := sc_sessions v + ar_sessions row,
                   sc_presences := sc_presences v + ar_presences row,
                   sc_uniques := sc_uniques v + ar_uniques row,
                   sc_hours_animator := sc_hours_animator v + ar_hours_animator row,
                   sc_hours_people := sc_hours_people v + ar_hours_people row\<rparr>) agg)"

definition sector_row_final :: "sector_row \<Rightarrow> sector_row" where
  "sector_row_final v =
     v\<lparr>sc_hours_animator := py_round 2 (sc_hours_animator v),
       sc_hours_people := py_round 2 (sc_hours_people v)\<rparr>"

definition base_step :: "atelier_row \<Rightarrow> (string \<times> atelier_row list) list \<Rightarrow> (string \<times> atelier_row list) list" where
  "base_step row m = upsert (secteur_or_default (ar_secteur row)) [] (\<lambda>rows. rows @ [row]) m"

subsection \<open>\<open>compute_volume_activity_stats\<close>\<close>

text \<open>
  The function is one long body; the model names its stretches. Lines 319 to 327: the
  workshops active in the comparison window, computed only when both bounds are given and
  ordered.
\<close>

definition previous_atelier_ids_of :: "actor \<Rightarrow> db \<Rightarrow> stats_filters \<Rightarrow> py_error + int list option" where
  "previous_atelier_ids_of u d flt =
     (case (f_date_from flt, f_date_to flt) of
        (Some df, Some dt) \<Rightarrow>
          if date_le df dt then
            (case previous_window df dt of
               Inl e \<Rightarrow> Inl e
             | Inr (prev_start, prev_end) \<Rightarrow>
                 Inr (Some (remdups (map (\<lambda>(s, a). a_id a)
                        (query_sessions_for_period u d flt (Some prev_start) (Some prev_end))))))
          else Inr None
      | _ \<Rightarrow> Inr None)"

text \<open>Lines 362 to 423: the hours and the per-workshop entries.\<close>

definition volume_rollup ::
  "(session \<times> atelier) list \<Rightarrow> presence list \<Rightarrow> rat \<times> rat \<times> (int \<times> atelier_acc) list" where
  "volume_rollup sessions_rows presences =
     (let pres_by_session = counter (map p_session_id presences)
      in fold (volume_step pres_by_session) sessions_rows (0, 0, []))"

text \<open>Lines 434 to 472: the time series.\<close>

definition volume_time_series ::
  "string \<Rightarrow> (session \<times> atelier) list \<Rightarrow> presence list \<Rightarrow> series_row list" where
  "volume_time_series group_by sessions_rows presences =
     (let st1 = fold (series_session_step group_by) sessions_rows ([], []);
          session_date_map =
            map_of (rev (concat (map (\<lambda>(s, a). case session_date s of None \<Rightarrow> []
                                                 | Some sd \<Rightarrow> [(s_id s, sd)]) sessions_rows)));
          (series, series_sort) = fold (series_presence_step group_by session_date_map) presences st1
      in map (\<lambda>(label, obj). \<lparr>sr_label = sa_label obj, sr_sessions = sa_sessions obj,
                                sr_presences = sa_presences obj,
                                sr_uniques = length (sa_uniques obj)\<rparr>)
             (sort_by (\<lambda>x y. triple_lt (series_key series_sort (fst x))
                                        (series_key series_sort (fst y))) series))"

text \<open>Lines 474 to 499: the heatmap.\<close>

definition volume_heatmap :: "(session \<times> atelier) list \<Rightarrow> (string \<times> (string \<times> nat) list) list" where
  "volume_heatmap sessions_rows = fold heat_step sessions_rows heat_init"

text \<open>Lines 501 to 543: presences and unique participants per workshop, then the table.\<close>

definition volume_table_ateliers ::
  "int list option \<Rightarrow> (session \<times> atelier) list \<Rightarrow> presence list \<Rightarrow> (int \<times> atelier_acc) list \<Rightarrow>
   atelier_row list" where
  "volume_table_ateliers previous_atelier_ids sessions_rows presences per_atelier0 =
     (let session_to_atelier = map_of (rev (map (\<lambda>(s, a). (s_id s, a_id a)) sessions_rows));
          per_atelier = fold (atelier_presence_step session_to_atelier) presences per_atelier0
      in sort_by atelier_row_before (map (atelier_row_of previous_atelier_ids) per_atelier))"

text \<open>Lines 547 to 576: the table aggregated by sector.\<close>

definition volume_sectors_summary :: "atelier_row list \<Rightarrow> sector_row list" where
  "volume_sectors_summary table_ateliers =
     sort_by sector_row_before
       (map (\<lambda>(k, v). sector_row_final v) (fold sector_step table_ateliers []))"

definition compute_volume_activity_stats :: "actor \<Rightarrow> db \<Rightarrow> stats_filters \<Rightarrow> py_error + volume_stats" where
  "compute_volume_activity_stats u d flt =
     (let sessions_rows = query_sessions_for_period u d flt (f_date_from flt) (f_date_to flt);
          session_ids = map (\<lambda>(s, a). s_id s) sessions_rows
      in (case previous_atelier_ids_of u d flt of
            Inl e \<Rightarrow> Inl e
          | Inr previous_atelier_ids \<Rightarrow>
             (let presences = presences_of_sessions d session_ids;
                  sessions_count = length sessions_rows;
                  presences_total = length presences;
                  uniques = length (remdups (map p_participant_id presences));
                  new_participants =
                    (if is_set (f_date_from flt) \<or> is_set (f_date_to flt)
                     then count_new_participants d (f_date_from flt) (f_date_to flt) else 0);
                  (hours_animator, hours_people, per_atelier0) = volume_rollup sessions_rows presences;
                  activity_duration_days =
                     span_of_dates (concat (map (\<lambda>(s, a). case session_date s of None \<Rightarrow> []
                                                             | Some sd \<Rightarrow> [sd]) sessions_rows));
                  avg_per_session =
                     (if sessions_count \<noteq> 0 then of_nat presences_total / of_nat sessions_count else 0);
                  table_ateliers =
                     volume_table_ateliers previous_atelier_ids sessions_rows presences per_atelier0
              in Inr \<lparr>v_kpi = \<lparr>k_sessions = sessions_count,
                               k_presences = presences_total,
                               k_uniques = uniques,
                               k_new_participants = new_participants,
                               k_hours_animator = py_round 2 hours_animator,
                               k_hours_people = py_round 2 hours_people,
                               k_avg_per_session = py_round 2 avg_per_session,
                               k_activity_duration_days = activity_duration_days\<rparr>,
                      v_time_series = volume_time_series (f_group_by flt) sessions_rows presences,
                      v_heatmap = volume_heatmap sessions_rows,
                      v_table_ateliers = table_ateliers,
                      v_top_ateliers = take 3 table_ateliers,
                      v_sectors_summary = volume_sectors_summary table_ateliers,
                      v_has_previous_period = (previous_atelier_ids \<noteq> None),
                      v_base_by_secteur = fold base_step table_ateliers []\<rparr>)))"

section \<open>Transversality\<close>







section \<open>Demography\<close>










section \<open>The cross-tabulation builder\<close>

record msession =
  ms_id :: int
  ms_atelier_id :: int
  ms_atelier :: string
  ms_secteur :: string
  ms_date :: "date option"
  ms_label :: string

record mparticipant =
  mp_id :: int
  mp_nom :: string
  mp_prenom :: string
  mp_ville :: "string option"
  mp_quartier :: "string option"
  mp_nb_presences :: nat
  mp_first_date :: "date option"
  mp_last_date :: "date option"

record macro_secteur =
  mcs_secteur :: string
  mcs_nb_sessions :: nat
  mcs_nb_presences :: nat
  mcs_nb_participants_uniques :: nat

record macro_atelier =
  mca_atelier_id :: int
  mca_atelier_nom :: string
  mca_secteur :: string
  mca_nb_sessions :: nat
  mca_nb_presences :: nat
  mca_nb_participants_uniques :: nat

record kpi_extras =
  kx_avg_sessions_per_participant :: rat
  kx_returning_participants :: nat
  kx_returning_rate :: rat
  kx_fidelite_3plus :: nat
  kx_fidelite_3plus_rate :: rat
  kx_new_participants :: nat

record macro_kpis =
  mk_total_sessions :: nat
  mk_total_presences :: nat
  mk_total_participants_uniques :: nat
  mk_avg_presences_per_session :: rat
  mk_extras :: "kpi_extras option"

record macro =
  mc_kpis :: macro_kpis
  mc_by_secteur :: "macro_secteur list"
  mc_by_atelier :: "macro_atelier list"

text \<open>The result mapping; a key that the returned mapping does not carry is \<open>None\<close>.\<close>

record magato =
  m_restricted :: bool
  m_view :: string
  m_macro :: "macro option"
  m_participants :: "mparticipant list option"
  m_sessions :: "msession list option"
  m_matrix :: "(int \<times> int) list option"
  m_limits :: "(int \<times> int) option"

text \<open>Presences joined with their session and workshop, under the common filters.\<close>

definition scoped_presence_rows :: "actor \<Rightarrow> db \<Rightarrow> stats_filters \<Rightarrow> (presence \<times> session \<times> atelier) list" where
  "scoped_presence_rows u d flt =
     concat (map (\<lambda>p. map (\<lambda>(s, a). (p, s, a))
                        (filter (\<lambda>(s, a). s_id s = p_session_id p)
                                (apply_common_filters u flt (session_atelier_join d))))
                 (db_presences d))"

text \<open>
  The aggregates per sector and per workshop: sessions left-joined with their presences,
  grouped; the groups ordered by the binary order of strings, ties in order of appearance.
\<close>

definition group_counts ::
  "db \<Rightarrow> (session \<times> atelier) list \<Rightarrow> nat \<times> nat \<times> nat" where
  "group_counts d rows =
     (let sids = remdups (map (\<lambda>(s, a). s_id s) rows);
          pres = concat (map (\<lambda>(s, a). filter (\<lambda>p. p_session_id p = s_id s) (db_presences d)) rows)
      in (length sids, length pres, length (remdups (map p_participant_id pres))))"

definition macro_by_secteur :: "db \<Rightarrow> (session \<times> atelier) list \<Rightarrow> macro_secteur list" where
  "macro_by_secteur d rows =
     map (\<lambda>sect.
            (case group_counts d (filter (\<lambda>(s, a). a_secteur a = sect) rows) of
               (ns, np, nu) \<Rightarrow>
                 \<lparr>mcs_secteur = sect, mcs_nb_sessions = ns, mcs_nb_presences = np,
                  mcs_nb_participants_uniques = nu\<rparr>))
         (sort_by str_lt (remdups (map (\<lambda>(s, a). a_secteur a) rows)))"

definition macro_by_atelier :: "db \<Rightarrow> (session \<times> atelier) list \<Rightarrow> macro_atelier list" where
  "macro_by_atelier d rows =
     map (\<lambda>(aid, nom, sect).
            (case group_counts d (filter (\<lambda>(s, a). (a_id a, a_nom a, a_secteur a) = (aid, nom, sect)) rows) of
               (ns, np, nu) \<Rightarrow>
                 \<lparr>mca_atelier_id = aid, mca_atelier_nom = nom, mca_secteur = sect,
                  mca_nb_sessions = ns, mca_nb_presences = np, mca_nb_participants_uniques = nu\<rparr>))
         (sort_by (\<lambda>(i, n, s) (i', n', s'). str_lt s s' \<or> (s = s' \<and> str_lt n n'))
                  (remdups (map (\<lambda>(s, a). (a_id a, a_nom a, a_secteur a)) rows)))"

text \<open>\<open>ORDER BY coalesce(rdv_date, date_session), id\<close>; a session without date sorts first.\<close>

definition date_lt :: "date \<Rightarrow> date \<Rightarrow> bool" where
  "date_lt a b = (date_le a b \<and> a \<noteq> b)"

definition session_row_lt :: "session \<times> atelier \<Rightarrow> session \<times> atelier \<Rightarrow> bool" where
  "session_row_lt x y =
     (case (session_date (fst x), session_date (fst y)) of
        (None, None) \<Rightarrow> s_id (fst x) < s_id (fst y)
      | (None, Some b) \<Rightarrow> True
      | (Some a, None) \<Rightarrow> False
      | (Some a, Some b) \<Rightarrow> date_lt a b \<or> (a = b \<and> s_id (fst x) < s_id (fst y)))"

text \<open>\<open>query.limit(n)\<close> applied under \<open>if n and n > 0\<close>.\<close>

definition limit_rows :: "int \<Rightarrow> 'a list \<Rightarrow> 'a list" where
  "limit_rows n xs = (if n \<noteq> 0 \<and> 0 < n then take (nat n) xs else xs)"

definition msession_of :: "session \<times> atelier \<Rightarrow> msession" where
  "msession_of r =
     (case r of (s, a) \<Rightarrow>
        \<lparr>ms_id = s_id s, ms_atelier_id = a_id a, ms_atelier = a_nom a, ms_secteur = a_secteur a,
         ms_date = session_date s,
         ms_label = (case session_date s of
                       None \<Rightarrow> ''Sans date''
                     | Some sd \<Rightarrow> pad_left 2 (str_of_int (day sd)) @ ''/''
                                  @ pad_left 2 (str_of_int (month sd)) @ ''/''
                                  @ pad_left 4 (str_of_int (year sd)))\<rparr>)"

text \<open>SQL \<open>LIKE\<close>: \<open>%\<close> matches any run of characters, \<open>_\<close> any one character.\<close>

fun like_match :: "string \<Rightarrow> string \<Rightarrow> bool" where
  "like_match [] [] = True"
| "like_match [] (x # xs) = False"
| "like_match (c # p) [] = (c = CHR ''%'' \<and> like_match p [])"
| "like_match (c # p) (x # xs) =
     (if c = CHR ''%'' then like_match p (x # xs) \<or> like_match (c # p) xs
      else (c = CHR ''_'' \<or> c = x) \<and> like_match p xs)"

definition name_filter :: "string option \<Rightarrow> participant \<Rightarrow> bool" where
  "name_filter participant_q pt =
     (case str_or_none participant_q of
        None \<Rightarrow> True
      | Some q \<Rightarrow>
          (let pq = py_strip q
           in if pq = [] then True
              else (let like = ''%'' @ py_lower pq @ ''%''
                    in like_match like (py_lower (pt_nom pt)) \<or> like_match like (py_lower (pt_prenom pt)))))"

definition participant_lt :: "participant \<Rightarrow> participant \<Rightarrow> bool" where
  "participant_lt x y =
     (str_lt (pt_nom x) (pt_nom y) \<or> (pt_nom x = pt_nom y \<and> str_lt (pt_prenom x) (pt_prenom y)))"

definition magato_participants ::
  "actor \<Rightarrow> db \<Rightarrow> stats_filters \<Rightarrow> string option \<Rightarrow> int \<Rightarrow> participant list" where
  "magato_participants u d flt participant_q max_participants =
     (let scoped_pids = map (\<lambda>(p, s, a). p_participant_id p) (scoped_presence_rows u d flt);
          cands = remdups (filter (\<lambda>pt. pt_id pt \<in> set scoped_pids \<and> name_filter participant_q pt)
                                  (db_participants d))
      in limit_rows max_participants (sort_by participant_lt cands))"

text \<open>
  The visit counts of the listed participants within the whole filtered perimeter, with the
  first and the last date.
\<close>

definition visit_counts ::
  "actor \<Rightarrow> db \<Rightarrow> stats_filters \<Rightarrow> int list \<Rightarrow> int \<Rightarrow> nat \<times> date option \<times> date option" where
  "visit_counts u d flt participant_ids pid =
     (let rows = filter (\<lambda>(p, s, a). p_participant_id p = pid \<and>
                               (participant_ids = [] \<or> p_participant_id p \<in> set participant_ids))
                        (scoped_presence_rows u d flt);
          dates = concat (map (\<lambda>(p, s, a). case session_date s of None \<Rightarrow> [] | Some sd \<Rightarrow> [sd]) rows)
      in (length rows, min_date dates, max_date dates))"

definition mparticipant_of ::
  "actor \<Rightarrow> db \<Rightarrow> stats_filters \<Rightarrow> int list \<Rightarrow> participant \<Rightarrow> mparticipant" where
  "mparticipant_of u d flt participant_ids pt =
     (case visit_counts u d flt participant_ids (pt_id pt) of
        (n, fd, ld) \<Rightarrow>
          \<lparr>mp_id = pt_id pt, mp_nom = pt_nom pt, mp_prenom = pt_prenom pt, mp_ville = pt_ville pt,
           mp_quartier = (case pt_quartier pt of None \<Rightarrow> None | Some q \<Rightarrow> Some (q_nom q)),
           mp_nb_presences = n, mp_first_date = fd, mp_last_date = ld\<rparr>)"

definition funder_kpis :: "stats_filters \<Rightarrow> mparticipant list \<Rightarrow> kpi_extras option" where
  "funder_kpis flt participants =
     (if participants = [] then None
      else
        (let nb_part = length participants;
             sum_pres = sum_list (map mp_nb_presences participants);
             returning = length (filter (\<lambda>p. 2 \<le> mp_nb_presences p) participants);
             heavy_3 = length (filter (\<lambda>p. 3 \<le> mp_nb_presences p) participants);
             new_count =
               (case (f_date_from flt, f_date_to flt) of
                  (Some df, Some dt) \<Rightarrow>
                    length (filter (\<lambda>p. case mp_first_date p of
                                           None \<Rightarrow> False
                                         | Some fd \<Rightarrow> date_le df fd \<and> date_le fd dt) participants)
                | _ \<Rightarrow> 0)
         in Some \<lparr>kx_avg_sessions_per_participant =
                     (if nb_part \<noteq> 0 then of_nat sum_pres / of_nat nb_part else 0),
                  kx_returning_participants = returning,
                  kx_returning_rate = (if nb_part \<noteq> 0 then of_nat returning / of_nat nb_part else 0),
                  kx_fidelite_3plus = heavy_3,
                  kx_fidelite_3plus_rate = (if nb_part \<noteq> 0 then of_nat heavy_3 / of_nat nb_part else 0),
                  kx_new_participants = new_count\<rparr>))"

definition normal_view :: "string option \<Rightarrow> string" where
  "normal_view view =
     (let v = py_strip (py_lower (case str_or_none view of None \<Rightarrow> ''macro'' | Some x \<Rightarrow> x))
      in if v \<in> set [''macro'', ''participants'', ''matrix''] then v else ''macro'')"

definition compute_magatomatique ::
  "actor \<Rightarrow> db \<Rightarrow> stats_filters \<Rightarrow> string option \<Rightarrow> string option \<Rightarrow> int \<Rightarrow> int \<Rightarrow> magato" where
  "compute_magatomatique u d flt participant_q view max_sessions max_participants =
     (if resolve_secteur_scope u flt = Some ''__restricted__'' then
        \<lparr>m_restricted = True,
         m_view = (case str_or_none view of None \<Rightarrow> ''macro'' | Some x \<Rightarrow> x),
         m_macro = None, m_participants = None, m_sessions = None, m_matrix = None, m_limits = None\<rparr>
      else
        (let v = normal_view view;
             base_rows = apply_common_filters u flt (session_atelier_join d);
             by_secteur = macro_by_secteur d base_rows;
             by_atelier = macro_by_atelier d base_rows;
             total_sessions = sum_list (map mca_nb_sessions by_atelier);
             total_presences = sum_list (map mca_nb_presences by_atelier);
             total_participants_uniques =
               length (remdups (map (\<lambda>(p, s, a). p_participant_id p) (scoped_presence_rows u d flt)));
             kpis = \<lparr>mk_total_sessions = total_sessions,
                     mk_total_presences = total_presences,
                     mk_total_participants_uniques = total_participants_uniques,
                     mk_avg_presences_per_session =
                       (if total_sessions \<noteq> 0 then of_nat total_presences / of_nat total_sessions else 0),
                     mk_extras = None\<rparr>
         in if v = ''macro'' then
              \<lparr>m_restricted = False, m_view = v,
               m_macro = Some \<lparr>mc_kpis = kpis, mc_by_secteur = by_secteur, mc_by_atelier = by_atelier\<rparr>,
               m_participants = None, m_sessions = None, m_matrix = None, m_limits = None\<rparr>
            else
              (let sessions = map msession_of (limit_rows max_sessions (sort_by session_row_lt base_rows));
                   session_ids = map ms_id sessions;
                   pts = magato_participants u d flt participant_q max_participants;
                   participant_ids = map pt_id pts;
                   participants = map (mparticipant_of u d flt participant_ids) pts;
                   macro' = \<lparr>mc_kpis = kpis\<lparr>mk_extras := funder_kpis flt participants\<rparr>,
                             mc_by_secteur = by_secteur, mc_by_atelier = by_atelier\<rparr>
               in if v = ''participants'' then
                    \<lparr>m_restricted = False, m_view = v, m_macro = Some macro',
                     m_participants = Some participants, m_sessions = Some sessions,
                     m_matrix = None, m_limits = Some (max_sessions, max_participants)\<rparr>
                  else
                    \<lparr>m_restricted = False, m_view = ''matrix'', m_macro = Some macro',
                     m_participants = Some participants, m_sessions = Some sessions,
                     m_matrix =
                       Some (if session_ids \<noteq> [] \<and> participant_ids \<noteq> []
                             then remdups (map (\<lambda>p. (p_participant_id p, p_session_id p))
                                    (filter (\<lambda>p. p_session_id p \<in> set session_ids \<and>
                                                  p_participant_id p \<in> set participant_ids)
                                            (db_presences d)))
                             else []),
                     m_limits = Some (max_sessions, max_participants)\<rparr>)))"

subsection \<open>The limits the dashboard passes\<close>

text \<open>
  \<open>int(request.args.get(k) or dflt)\<close> inside \<open>try\<close>, with \<open>except Exception\<close> giving
  \<open>dflt\<close>.
\<close>

definition requested_limit :: "string option \<Rightarrow> int \<Rightarrow> int" where
  "requested_limit v dflt =
     (case str_or_none v of
        None \<Rightarrow> dflt
      | Some s \<Rightarrow> (case py_int s of Inl e \<Rightarrow> dflt | Inr n \<Rightarrow> n))"

definition dashboard_limits :: "(string \<rightharpoonup> string) \<Rightarrow> int \<times> int" where
  "dashboard_limits args =
     (let max_sessions = requested_limit (args ''max_sessions'') 40;
          max_participants = requested_limit (args ''max_participants'') 250
      in (max 5 (min max_sessions 200), max 20 (min max_participants 1000)))"

text \<open>
  Lines 836 to 861 of \<open>routes.py\<close>: the builder is called only when the tab is shown, with
  the clamped limits.
\<close>

definition dashboard_magato :: "actor \<Rightarrow> db \<Rightarrow> stats_filters \<Rightarrow> (string \<rightharpoonup> string) \<Rightarrow> magato option" where
  "dashboard_magato u d flt args =
     (let tab = py_lower (py_strip (case str_or_none (args ''tab'') of None \<Rightarrow> ''base'' | Some t \<Rightarrow> t))
      in if tab \<in> set [''magato'', ''magatomatique''] then
           (let participant_q =
                  str_or_none (Some (py_strip (case str_or_none (args ''participant_q'') of
                                                 None \<Rightarrow> [] | Some q \<Rightarrow> q)));
                view = py_lower (py_strip (case str_or_none (args ''magato_view'') of
                                             None \<Rightarrow> ''macro'' | Some x \<Rightarrow> x));
                (max_sessions, max_participants) = dashboard_limits args
            in Some (compute_magatomatique u d flt participant_q (Some view) max_sessions max_participants))
         else None)"

text \<open>
  Lines 969 to 1008 of \<open>routes.py\<close>: the spreadsheet export calls the builder with wider
  clamps, unless the per-workshop export is asked for.
\<close>

definition export_limits :: "(string \<rightharpoonup> string) \<Rightarrow> int \<times> int" where
  "export_limits args =
     (let max_sessions = requested_limit (args ''max_sessions'') 40;
          max_participants = requested_limit (args ''max_participants'') 250
      in (max 5 (min max_sessions 400), max 20 (min max_participants 5000)))"

definition export_magato :: "actor \<Rightarrow> db \<Rightarrow> stats_filters \<Rightarrow> (string \<rightharpoonup> string) \<Rightarrow> magato option" where
  "export_magato u d flt args =
     (let export_mode = py_lower (py_strip (case str_or_none (args ''export_mode'') of
                                              None \<Rightarrow> ''flat'' | Some m \<Rightarrow> m));
          participant_q =
            str_or_none (Some (py_strip (case str_or_none (args ''participant_q'') of
                                           None \<Rightarrow> [] | Some q \<Rightarrow> q)));
          view = py_lower (py_strip (case str_or_none (args ''magato_view'') of
                                       None \<Rightarrow> ''macro'' | Some x \<Rightarrow> x));
          (max_sessions, max_participants) = export_limits args
      in if export_mode \<in> set [''per_atelier'', ''per-atelier'', ''atelier''] then None
         else Some (compute_magatomatique u d flt participant_q (Some view) max_sessions max_participants))"

subsection \<open>Sample store: one collective workshop, two sessions in March\<close>

definition atelier_w :: atelier where
  "atelier_w =
     \<lparr>a_id = 1, a_secteur = ''Numerique'', a_nom = ''W'', type_atelier = ''COLLECTIF'',
      capacite_defaut = Some 10, duree_defaut_minutes = None, a_is_deleted = False\<rparr>"

definition collective_session :: "int \<Rightarrow> date \<Rightarrow> session" where
  "collective_session i dt =
     \<lparr>s_id = i, s_atelier_id = 1, s_secteur = ''Numerique'', session_type = ''COLLECTIF'',
      date_session = Some dt, heure_debut = None, heure_fin = None,
      capacite = None, statut = ''realisee'', rdv_date = None, rdv_debut = None, rdv_fin = None,
      s_is_deleted = False\<rparr>"

text \<open>Presences \<open>first_id, first_id + 1, ...\<close> of participants \<open>1..n\<close> at session \<open>sid\<close>.\<close>

definition presences_at :: "int \<Rightarrow> int \<Rightarrow> int \<Rightarrow> presence list" where
  "presences_at first_id sid n =
     map (\<lambda>i. \<lparr>p_id = first_id + i - 1, p_session_id = sid, p_participant_id = i\<rparr>) [1 .. n]"

definition db_march :: db where
  "db_march =
     \<lparr>db_ateliers = [atelier_w],
      db_sessions = [collective_session 1 (ymd 2024 3 5), collective_session 2 (ymd 2024 3 19)],
      db_presences = presences_at 1 1 8 @ presences_at 9 2 12,
      db_participants = [],
      db_periodes = []\<rparr>"

definition flt_march :: stats_filters where
  "flt_march =
     \<lparr>f_secteur = None, f_atelier_id = None,
      f_date_from = Some (ymd 2024 3 1), f_date_to = Some (ymd 2024 3 31),
      f_preset = None, f_group_by = ''MONTH'', f_periode_id = None\<rparr>"

subsection \<open>Sample store: one realised session without times in a workshop of capacity 10\<close>

definition actor_view_all :: actor where
  "actor_view_all = \<lparr>secteur_assigne = None, perm_codes = [''statsimpact:view_all'']\<rparr>"

definition session_timed :: "string option \<Rightarrow> string option \<Rightarrow> session" where
  "session_timed t0 t1 = (collective_session 1 (ymd 2024 3 5))\<lparr>heure_debut := t0, heure_fin := t1\<rparr>"

definition db_one_session :: "string option \<Rightarrow> string option \<Rightarrow> db" where
  "db_one_session t0 t1 =
     \<lparr>db_ateliers = [atelier_w],
      db_sessions = [session_timed t0 t1],
      db_presences = presences_at 1 1 5,
      db_participants = [],
      db_periodes = []\<rparr>"

subsection \<open>Sample actors and stores for scope and limits\<close>


definition sample_participant :: "int \<Rightarrow> string \<Rightarrow> participant" where
  "sample_participant i n =
     \<lparr>pt_id = i, pt_nom = n, pt_prenom = ''P'', pt_ville = None, pt_genre = None,
      pt_date_naissance = None, pt_type_public = ''H'', pt_quartier = None\<rparr>"

text \<open>The March store with two of its participants entered in the participant table.\<close>

definition db_march_named :: db where
  "db_march_named = db_march\<lparr>db_participants := [sample_participant 1 ''A'', sample_participant 2 ''B'']\<rparr>"


subsection \<open>Zero-valued results, named for the statements below\<close>











definition args_matrix_small :: "string \<rightharpoonup> string" where
  "args_matrix_small =
     [''tab'' \<mapsto> ''magato'', ''magato_view'' \<mapsto> ''matrix'',
      ''max_sessions'' \<mapsto> ''1'', ''max_participants'' \<mapsto> ''1'']"

section \<open>Session duration\<close>

lemma parse_time_minutes_range:
  assumes "parse_time_minutes t = Some n"
  shows "0 \<le> n \<and> n \<le> 1439"
  using assms
  by (auto simp: parse_time_minutes_def Let_def
           split: option.splits if_splits list.splits sum.splits)

text \<open>
  Claim C8, as the code has it. The duration of a session is \<open>end - start\<close> when both
  time-of-day strings of the session (\<open>heure_debut\<close>/\<open>heure_fin\<close> for a collective session,
  \<open>rdv_debut\<close>/\<open>rdv_fin\<close> otherwise) parse and the end lies strictly after the start;
  in every other case it is the workshop's default session duration when that is set, and 0
  when it is not.
\<close>

theorem session_duration_minutes_cases:
  "session_duration_minutes s a =
     (let collectif = (py_upper (session_type s) = ''COLLECTIF'');
          start = parse_time_minutes (if collectif then heure_debut s else rdv_debut s);
          end = parse_time_minutes (if collectif then heure_fin s else rdv_fin s);
          fallback = (case duree_defaut_minutes a of None \<Rightarrow> 0 | Some d \<Rightarrow> d)
      in (case (start, end) of
            (Some st, Some en) \<Rightarrow> if st < en then en - st else fallback
          | _ \<Rightarrow> fallback))"
  by (auto simp: session_duration_minutes_def default_duration_def Let_def split: option.splits)

text \<open>
  Claim C8 as stated fails: both times of this session parse (14:00 is minute 840, 13:00 is
  minute 780), yet the duration is the workshop default 90 and not \<open>780 - 840\<close>.
\<close>

theorem session_duration_reversed_times_counterexample:
  "parse_time_minutes (heure_debut session_reversed_times) = Some 840 \<and>
   parse_time_minutes (heure_fin session_reversed_times) = Some 780 \<and>
   session_duration_minutes session_reversed_times atelier_default_90 = 90 \<and>
   session_duration_minutes session_reversed_times atelier_default_90 \<noteq> 780 - 840"
  by code_simp

section \<open>Presets\<close>

lemma days_later_4:
  "days_later 4 d =
     (case next_day d of None \<Rightarrow> None | Some d1 \<Rightarrow>
     (case next_day d1 of None \<Rightarrow> None | Some d2 \<Rightarrow>
     (case next_day d2 of None \<Rightarrow> None | Some d3 \<Rightarrow> next_day d3)))"
  by (simp add: eval_nat_numeral split: option.splits)

lemma days_in_month_cases:
  "days_in_month y m = 28 \<or> days_in_month y m = 29 \<or> days_in_month y m = 30 \<or> days_in_month y m = 31"
  by (simp add: days_in_month_def)

lemma plus4_from_28:
  assumes "1 \<le> m" "m \<le> 12" "y < 9999 \<or> m < 12"
  shows "date_add \<lparr>year = y, month = m, day = 28\<rparr> 4 =
     Inr (if m < 12 then \<lparr>year = y, month = m + 1, day = 32 - days_in_month y m\<rparr>
          else \<lparr>year = y + 1, month = 1, day = 1\<rparr>)"
proof -
  have m12: "m = 12 \<Longrightarrow> days_in_month y m = 31" by (simp add: days_in_month_def)
  have nx: "1 \<le> m + 1 \<Longrightarrow> days_in_month y (m + 1) \<ge> 28" for m
    by (simp add: days_in_month_def)
  from days_in_month_cases [of y m] show ?thesis
    using assms m12 nx [of m]
    by (elim disjE) (auto simp: date_add_def days_later_4 next_day_def)
qed

lemma back_to_month_end:
  assumes "1 \<le> k" "k \<le> 4" "1 \<le> m" "m < 12"
  shows "date_add \<lparr>year = y, month = m + 1, day = k\<rparr> (- k) =
         Inr \<lparr>year = y, month = m, day = days_in_month y m\<rparr>"
proof -
  from assms have "k = 1 \<or> k = 2 \<or> k = 3 \<or> k = 4" by arith
  then show ?thesis using assms
    by (elim disjE) (simp_all add: date_add_def eval_nat_numeral prev_day_def)
qed

lemma back_to_december:
  assumes "1 \<le> y"
  shows "date_add \<lparr>year = y + 1, month = 1, day = 1\<rparr> (- 1) =
         Inr \<lparr>year = y, month = 12, day = 31\<rparr>"
  using assms by (simp add: date_add_def prev_day_def)

lemma month_end_first:
  assumes "1 \<le> y" "y \<le> 9999" "1 \<le> m" "m \<le> 12" "y < 9999 \<or> m < 12"
  shows "month_end \<lparr>year = y, month = m, day = 1\<rparr> =
         Inr \<lparr>year = y, month = m, day = days_in_month y m\<rparr>"
proof -
  have v28: "mk_date y m 28 = Inr \<lparr>year = y, month = m, day = 28\<rparr>"
    using assms days_in_month_cases [of y m] by (auto simp: mk_date_def valid_date_def)
  show ?thesis
  proof (cases "m < 12")
    case True
    have k: "1 \<le> 32 - days_in_month y m" "32 - days_in_month y m \<le> 4"
      using days_in_month_cases [of y m] by auto
    show ?thesis
      using True assms back_to_month_end [OF k \<open>1 \<le> m\<close> True, of y]
      by (simp add: month_end_def v28 plus4_from_28)
  next
    case False
    with assms have m: "m = 12" and y: "y < 9999" by auto
    have d31: "days_in_month y 12 = 31" by (simp add: days_in_month_def)
    have p4: "date_add \<lparr>year = y, month = 12, day = 28\<rparr> 4 =
              Inr \<lparr>year = y + 1, month = 1, day = 1\<rparr>"
      using plus4_from_28 [of 12 y] y by simp
    show ?thesis
      using assms back_to_december [of y]
      unfolding m by (simp add: month_end_def v28 [unfolded m] p4 d31)
  qed
qed

lemma next_day_after_month_end:
  assumes "1 \<le> m" "m \<le> 12" "y < 9999 \<or> m < 12"
  shows "\<exists>d'. next_day \<lparr>year = y, month = m, day = days_in_month y m\<rparr> = Some d' \<and> day d' = 1"
  using assms by (auto simp: next_day_def)

text \<open>
  Claim C7, as the code has it. For every valid date \<open>today\<close> outside December 9999, the
  preset \<open>THIS_MONTH\<close> (or its alias \<open>MONTH_THIS\<close>, in any letter case and with surrounding
  blanks) resolves to the first day of today's month and to the last calendar day of that
  month: the day whose successor is the first day of a month. In December 9999 the step
  past day 28 leaves the range of dates and the call raises \<open>OverflowError\<close>.
\<close>

theorem apply_preset_this_month:
  assumes "valid_date t"
      and "year t < 9999 \<or> month t < 12"
      and "py_strip (py_upper preset) = ''THIS_MONTH'' \<or> py_strip (py_upper preset) = ''MONTH_THIS''"
      and "t = (case today of None \<Rightarrow> now | Some d \<Rightarrow> d)"
  shows "apply_preset preset today now =
           Inr (\<lparr>year = year t, month = month t, day = 1\<rparr>,
                \<lparr>year = year t, month = month t, day = days_in_month (year t) (month t)\<rparr>)
         \<and> (\<exists>d'. next_day \<lparr>year = year t, month = month t,
                              day = days_in_month (year t) (month t)\<rparr> = Some d' \<and> day d' = 1)"
proof -
  have v1: "mk_date (year t) (month t) 1 = Inr \<lparr>year = year t, month = month t, day = 1\<rparr>"
    using assms(1) days_in_month_cases [of "year t" "month t"]
    by (auto simp: mk_date_def valid_date_def)
  have me: "month_end \<lparr>year = year t, month = month t, day = 1\<rparr> =
            Inr \<lparr>year = year t, month = month t, day = days_in_month (year t) (month t)\<rparr>"
    using assms(1,2) by (intro month_end_first) (auto simp: valid_date_def)
  have "apply_preset preset today now =
           Inr (\<lparr>year = year t, month = month t, day = 1\<rparr>,
                \<lparr>year = year t, month = month t, day = days_in_month (year t) (month t)\<rparr>)"
    using assms(3) by (auto simp: apply_preset_def Let_def assms(4) [symmetric] v1 me)
  moreover have "\<exists>d'. next_day \<lparr>year = year t, month = month t,
                              day = days_in_month (year t) (month t)\<rparr> = Some d' \<and> day d' = 1"
    using assms(1,2) by (intro next_day_after_month_end) (auto simp: valid_date_def)
  ultimately show ?thesis by simp
qed

theorem apply_preset_this_month_witness:
  "apply_preset ''THIS_MONTH'' (Some (ymd 2024 2 10)) (ymd 2026 11 4) = Inr (ymd 2024 2 1, ymd 2024 2 29) \<and>
   apply_preset ''this_month'' (Some (ymd 2023 2 28)) (ymd 2026 11 4) = Inr (ymd 2023 2 1, ymd 2023 2 28) \<and>
   apply_preset ''MONTH_THIS'' None (ymd 2026 11 4) = Inr (ymd 2026 11 1, ymd 2026 11 30) \<and>
   apply_preset '' This_Month '' None (ymd 2026 12 31) = Inr (ymd 2026 12 1, ymd 2026 12 31)"
proof -
  have p1: "py_strip (py_upper ''THIS_MONTH'') = ''THIS_MONTH'' \<or> py_strip (py_upper ''THIS_MONTH'') = ''MONTH_THIS''"
    by code_simp
  have p2: "py_strip (py_upper ''this_month'') = ''THIS_MONTH'' \<or> py_strip (py_upper ''this_month'') = ''MONTH_THIS''"
    by code_simp
  have p3: "py_strip (py_upper ''MONTH_THIS'') = ''THIS_MONTH'' \<or> py_strip (py_upper ''MONTH_THIS'') = ''MONTH_THIS''"
    by code_simp
  have p4: "py_strip (py_upper '' This_Month '') = ''THIS_MONTH'' \<or> py_strip (py_upper '' This_Month '') = ''MONTH_THIS''"
    by code_simp
  have v1: "valid_date (ymd 2024 2 10)" and v2: "valid_date (ymd 2023 2 28)"
    and v3: "valid_date (ymd 2026 11 4)" and v4: "valid_date (ymd 2026 12 31)"
    by (simp_all add: ymd_def valid_date_def days_in_month_def is_leap_def)
  have r1: "year (ymd 2024 2 10) < 9999 \<or> month (ymd 2024 2 10) < 12"
    and r2: "year (ymd 2023 2 28) < 9999 \<or> month (ymd 2023 2 28) < 12"
    and r3: "year (ymd 2026 11 4) < 9999 \<or> month (ymd 2026 11 4) < 12"
    and r4: "year (ymd 2026 12 31) < 9999 \<or> month (ymd 2026 12 31) < 12"
    by (simp_all add: ymd_def)
  have t1: "ymd 2024 2 10 = (case Some (ymd 2024 2 10) of None \<Rightarrow> ymd 2026 11 4 | Some d \<Rightarrow> d)"
    and t2: "ymd 2023 2 28 = (case Some (ymd 2023 2 28) of None \<Rightarrow> ymd 2026 11 4 | Some d \<Rightarrow> d)"
    and t3: "ymd 2026 11 4 = (case None of None \<Rightarrow> ymd 2026 11 4 | Some d \<Rightarrow> d)"
    and t4: "ymd 2026 12 31 = (case None of None \<Rightarrow> ymd 2026 12 31 | Some d \<Rightarrow> d)"
    by simp_all
  show ?thesis
    using apply_preset_this_month [OF v1 r1 p1 t1] apply_preset_this_month [OF v2 r2 p2 t2]
          apply_preset_this_month [OF v3 r3 p3 t3] apply_preset_this_month [OF v4 r4 p4 t4]
    by (simp add: ymd_def days_in_month_def is_leap_def)
qed

text \<open>
  Claim C7 as stated fails for a day of December 9999: \<open>date(9999, 12, 28) + timedelta(days=4)\<close>
  is past the last date, so the preset raises instead of returning the month's bounds.
\<close>

theorem apply_preset_this_month_counterexample:
  "valid_date (ymd 9999 12 15) \<and>
   apply_preset ''THIS_MONTH'' (Some (ymd 9999 12 15)) (ymd 2026 11 4) = Inl OverflowError"
  by code_simp





text \<open>
  Claim C6 at the input \<open>atelier_id=abc\<close>: \<open>int("abc")\<close> raises \<open>ValueError\<close> and nothing in
  \<open>normalize_filters\<close> catches it, whatever the stored periods and the current day.
\<close>

theorem normalize_filters_non_numeric_atelier_id:
  "normalize_filters periodes now (Some [''atelier_id'' \<mapsto> ''abc''])
      None None None None None None None = Inl ValueError"
  by (simp add: normalize_filters_def get_or_def int_param_def py_int_def int_isspace_def is_digit_def)

section \<open>Frequency buckets\<close>

lemma counter_add_keys: "fst ` set (counter_add k acc) = insert k (fst ` set acc)"
proof (induction acc)
  case Nil then show ?case by simp
next
  case (Cons x acc)
  obtain k' n where x: "x = (k', n)" by (cases x)
  show ?case
  proof (cases "k = k'")
    case True then show ?thesis by (simp add: x)
  next
    case False then show ?thesis using Cons by (simp add: x insert_commute)
  qed
qed

lemma counter_add_distinct: "distinct (map fst acc) \<Longrightarrow> distinct (map fst (counter_add k acc))"
proof (induction acc)
  case Nil then show ?case by simp
next
  case (Cons x acc)
  obtain k' n where x: "x = (k', n)" by (cases x)
  show ?case using Cons counter_add_keys [of k acc] by (auto simp: x)
qed

lemma counter_add_map_of:
  "map_of (counter_add k acc) =
     (map_of acc)(k \<mapsto> (case map_of acc k of None \<Rightarrow> 1 | Some n \<Rightarrow> n + 1))"
  by (induction acc) (auto simp: fun_eq_iff)

lemma fold_counter_add_distinct:
  "distinct (map fst acc) \<Longrightarrow> distinct (map fst (fold counter_add xs acc))"
  by (induction xs arbitrary: acc) (auto simp: counter_add_distinct)

lemma fold_counter_add_keys:
  "fst ` set (fold counter_add xs acc) = set xs \<union> fst ` set acc"
  by (induction xs arbitrary: acc) (auto simp: counter_add_keys)

lemma fold_counter_add_map_of:
  "map_of (fold counter_add xs acc) k =
     (if k \<in> set xs \<or> map_of acc k \<noteq> None
      then Some (count_list xs k + (case map_of acc k of None \<Rightarrow> 0 | Some n \<Rightarrow> n))
      else None)"
proof (induction xs arbitrary: acc)
  case Nil then show ?case by (auto split: option.splits)
next
  case (Cons x xs)
  show ?case
    by (simp add: Cons counter_add_map_of split: option.splits)
qed

lemma counter_distinct: "distinct (map fst (counter xs))"
  by (simp add: counter_def fold_counter_add_distinct)

lemma counter_keys: "fst ` set (counter xs) = set xs"
  by (simp add: counter_def fold_counter_add_keys)

lemma counter_map_of: "map_of (counter xs) k = (if k \<in> set xs then Some (count_list xs k) else None)"
  by (simp add: counter_def fold_counter_add_map_of)

lemma counter_length: "length (counter xs) = card (set xs)"
proof -
  have "length (counter xs) = length (map fst (counter xs))" by simp
  also have "\<dots> = card (set (map fst (counter xs)))"
    using counter_distinct [of xs] by (simp only: distinct_card)
  also have "\<dots> = card (set xs)" using counter_keys [of xs] by simp
  finally show ?thesis .
qed

lemma filter_values_card:
  assumes "distinct (map fst l)"
  shows "length (filter P (map snd l)) = card {k \<in> fst ` set l. P (the (map_of l k))}"
  using assms
proof (induction l)
  case Nil then show ?case by simp
next
  case (Cons x l)
  obtain k n where x: "x = (k, n)" by (cases x)
  from Cons.prems have kn: "k \<notin> fst ` set l" and dl: "distinct (map fst l)" by (auto simp: x)
  have eq: "{k' \<in> fst ` set l. P (the (map_of ((k, n) # l) k'))} = {k' \<in> fst ` set l. P (the (map_of l k'))}"
    using kn by auto
  have fin: "finite {k' \<in> fst ` set l. P (the (map_of l k'))}" by simp
  have split: "{k' \<in> fst ` set (x # l). P (the (map_of (x # l) k'))} =
        (if P n then {k} else {}) \<union> {k' \<in> fst ` set l. P (the (map_of l k'))}"
    using kn by (auto simp: x)
  have notin: "k \<notin> {k' \<in> fst ` set l. P (the (map_of l k'))}" using kn by simp
  show ?case
    unfolding split using Cons.IH [OF dl] fin notin by (simp add: x)
qed

lemma counter_filter_card:
  "length (filter P (map snd (counter xs))) = card {k \<in> set xs. P (count_list xs k)}"
proof -
  have "{k \<in> fst ` set (counter xs). P (the (map_of (counter xs) k))} = {k \<in> set xs. P (count_list xs k)}"
    by (auto simp: counter_keys counter_map_of)
  then show ?thesis using filter_values_card [OF counter_distinct, of P xs] by simp
qed

lemma fold_bucket_step:
  "fold bucket_step ns b =
     \<lparr>b_1 = b_1 b + length (filter (\<lambda>n. n \<le> 1) ns),
      b_2_3 = b_2_3 b + length (filter (\<lambda>n. 2 \<le> n \<and> n \<le> 3) ns),
      b_4_6 = b_4_6 b + length (filter (\<lambda>n. 4 \<le> n \<and> n \<le> 6) ns),
      b_7_plus = b_7_plus b + length (filter (\<lambda>n. 7 \<le> n) ns)\<rparr>"
proof (induction ns arbitrary: b)
  case Nil
  then show ?case by simp
next
  case (Cons n ns)
  have step: "fold bucket_step (n # ns) b = fold bucket_step ns (bucket_step n b)" by simp
  consider "n \<le> 1" | "2 \<le> n \<and> n \<le> 3" | "4 \<le> n \<and> n \<le> 6" | "7 \<le> n" by linarith
  then show ?case
  proof cases
    case 1
    then have "bucket_step n b = b\<lparr>b_1 := b_1 b + 1\<rparr>" by (simp add: bucket_step_def)
    then show ?thesis using 1 by (simp only: step Cons) simp
  next
    case 2
    then have "bucket_step n b = b\<lparr>b_2_3 := b_2_3 b + 1\<rparr>" by (simp add: bucket_step_def)
    then show ?thesis using 2 by (simp only: step Cons) simp
  next
    case 3
    then have "bucket_step n b = b\<lparr>b_4_6 := b_4_6 b + 1\<rparr>" by (simp add: bucket_step_def)
    then show ?thesis using 3 by (simp only: step Cons) simp
  next
    case 4
    then have "bucket_step n b = b\<lparr>b_7_plus := b_7_plus b + 1\<rparr>" by (simp add: bucket_step_def)
    then show ?thesis using 4 by (simp only: step Cons) simp
  qed
qed

lemma bucket_filters_partition:
  "length (filter (\<lambda>n. n \<le> 1) ns) + length (filter (\<lambda>n. 2 \<le> n \<and> n \<le> 3) ns)
     + length (filter (\<lambda>n. 4 \<le> n \<and> n \<le> 6) ns) + length (filter (\<lambda>n. 7 \<le> n) ns)
   = length (ns :: nat list)"
  by (induction ns) auto

text \<open>
  Claim C9. For every actor, store and filter, with \<open>visits k\<close> the number of presences of
  participant \<open>k\<close> among the presences of the filtered window: \<open>uniques\<close> is the number of
  distinct participants; the buckets \<open>1\<close>, \<open>2-3\<close>, \<open>4-6\<close>, \<open>7+\<close> count the participants
  with exactly 1, with 2 to 3, with 4 to 6 and with at least 7 visits, and add up to
  \<open>uniques\<close>; \<open>returning\<close> counts the participants with at least 2 visits and
  \<open>regulars_4plus\<close> those with at least 4.
\<close>

theorem frequency_buckets_partition:
  "(let presences = snd (get_scoped_sessions_and_presences u d flt);
        pids = map p_participant_id presences;
        visits = count_list pids;
        r = compute_participation_frequency_stats u d flt;
        b = fr_buckets r
    in fr_uniques r = card (set pids)
     \<and> b_1 b + b_2_3 b + b_4_6 b + b_7_plus b = fr_uniques r
     \<and> b_1 b = card {k \<in> set pids. visits k = 1}
     \<and> b_2_3 b = card {k \<in> set pids. 2 \<le> visits k \<and> visits k \<le> 3}
     \<and> b_4_6 b = card {k \<in> set pids. 4 \<le> visits k \<and> visits k \<le> 6}
     \<and> b_7_plus b = card {k \<in> set pids. 7 \<le> visits k}
     \<and> fr_returning r = card {k \<in> set pids. 2 \<le> visits k}
     \<and> fr_regulars_4plus r = card {k \<in> set pids. 4 \<le> visits k})"
proof -
  define pids where "pids = map p_participant_id (snd (get_scoped_sessions_and_presences u d flt))"
  define r where "r = compute_participation_frequency_stats u d flt"
  define ns where "ns = map snd (counter pids)"
  have u: "fr_uniques r = length ns"
    by (simp add: r_def ns_def pids_def compute_participation_frequency_stats_def Let_def
          split: prod.splits)
  have b: "fr_buckets r = fold bucket_step ns \<lparr>b_1 = 0, b_2_3 = 0, b_4_6 = 0, b_7_plus = 0\<rparr>"
    by (simp add: r_def ns_def pids_def compute_participation_frequency_stats_def Let_def
          split: prod.splits)
  have ret: "fr_returning r = length (filter (\<lambda>n. 2 \<le> n) ns)"
    by (simp add: r_def ns_def pids_def compute_participation_frequency_stats_def Let_def
          split: prod.splits)
  have reg: "fr_regulars_4plus r = length (filter (\<lambda>n. 4 \<le> n) ns)"
    by (simp add: r_def ns_def pids_def compute_participation_frequency_stats_def Let_def
          split: prod.splits)
  have pos: "k \<in> set pids \<Longrightarrow> (count_list pids k \<le> 1) = (count_list pids k = 1)" for k
    using count_list_0_iff [of pids k] by auto
  have c1: "b_1 (fr_buckets r) = card {k \<in> set pids. count_list pids k = 1}"
  proof -
    have "{k \<in> set pids. count_list pids k \<le> 1} = {k \<in> set pids. count_list pids k = 1}"
      using pos by auto
    then show ?thesis
      using counter_filter_card [of "\<lambda>n. n \<le> 1" pids]
      by (simp add: b fold_bucket_step ns_def)
  qed
  have c2: "b_2_3 (fr_buckets r) = card {k \<in> set pids. 2 \<le> count_list pids k \<and> count_list pids k \<le> 3}"
    using counter_filter_card [of "\<lambda>n. 2 \<le> n \<and> n \<le> 3" pids]
    by (simp add: b fold_bucket_step ns_def)
  have c3: "b_4_6 (fr_buckets r) = card {k \<in> set pids. 4 \<le> count_list pids k \<and> count_list pids k \<le> 6}"
    using counter_filter_card [of "\<lambda>n. 4 \<le> n \<and> n \<le> 6" pids]
    by (simp add: b fold_bucket_step ns_def)
  have c4: "b_7_plus (fr_buckets r) = card {k \<in> set pids. 7 \<le> count_list pids k}"
    using counter_filter_card [of "\<lambda>n. 7 \<le> n" pids]
    by (simp add: b fold_bucket_step ns_def)
  have total: "b_1 (fr_buckets r) + b_2_3 (fr_buckets r) + b_4_6 (fr_buckets r) + b_7_plus (fr_buckets r)
               = fr_uniques r"
    using bucket_filters_partition [of ns] by (simp add: b fold_bucket_step u)
  have uc: "fr_uniques r = card (set pids)"
    by (simp add: u ns_def counter_length)
  have retc: "fr_returning r = card {k \<in> set pids. 2 \<le> count_list pids k}"
    using counter_filter_card [of "\<lambda>n. 2 \<le> n" pids]
    by (simp add: ret ns_def)
  have regc: "fr_regulars_4plus r = card {k \<in> set pids. 4 \<le> count_list pids k}"
    using counter_filter_card [of "\<lambda>n. 4 \<le> n" pids]
    by (simp add: reg ns_def)
  show ?thesis
    unfolding Let_def pids_def [symmetric] r_def [symmetric]
    using uc total c1 c2 c3 c4 retc regc by simp
qed

section \<open>Occupancy: capacity fallback and fill rate\<close>

lemma counter_get_counter: "counter_get (counter xs) k = count_list xs k"
  using count_list_0_iff [of xs k] by (simp add: counter_get_def counter_map_of)

lemma count_list_session_ids:
  "count_list (map p_session_id (filter (\<lambda>p. p_session_id p \<in> S) ps)) k =
     (if k \<in> S then length (filter (\<lambda>p. p_session_id p = k) ps) else 0)"
  by (induction ps) auto

lemma effective_capacity_pos: "0 < effective_capacity s a"
  by (simp add: effective_capacity_def DEFAULT_COLLECTIF_CAPACITY_def Let_def split: option.splits)

lemma fold_occ_step_fill_rates:
  "fst (fold (occ_step pbs) rows (frs, b, pa)) = frs @ map (fill_rate pbs) rows"
proof (induction rows arbitrary: frs b pa)
  case Nil
  then show ?case by simp
next
  case (Cons r rows)
  obtain s a where r: "r = (s, a)" by (cases r)
  have "occ_step pbs r (frs, b, pa) =
          (frs @ [fill_rate pbs r], fst (snd (occ_step pbs r (frs, b, pa))),
           snd (snd (occ_step pbs r (frs, b, pa))))"
    by (simp add: occ_step_def r Let_def)
  then have "fst (fold (occ_step pbs) rows (occ_step pbs r (frs, b, pa))) =
          (frs @ [fill_rate pbs r]) @ map (fill_rate pbs) rows"
    using Cons [of "frs @ [fill_rate pbs r]"] by metis
  then show ?case by simp
qed

lemma occupancy_avg_general:
  "oc_avg_fill_rate_pct (compute_occupancy_stats d flt) =
     (let rows = occupancy_sessions d flt;
          ids = map (\<lambda>(s, a). s_id s) rows;
          pbs = counter (map p_session_id (filter (\<lambda>p. p_session_id p \<in> set ids) (db_presences d)))
      in if rows = [] then None
         else Some (py_round 1 (mean (map (fill_rate pbs) rows) * 100)))"
proof -
  define rows where "rows = occupancy_sessions d flt"
  define pbs where "pbs = counter (map p_session_id
      (filter (\<lambda>p. p_session_id p \<in> set (map (\<lambda>(s, a). s_id s) rows)) (db_presences d)))"
  define init :: "rat list \<times> occ_buckets \<times> (int \<times> occ_acc) list"
    where "init = ([], \<lparr>ob_lt_50 = 0, ob_50_79 = 0, ob_80_99 = 0, ob_100_plus = 0\<rparr>, [])"
  have fr: "fst (fold (occ_step pbs) rows init) = map (fill_rate pbs) rows"
    using fold_occ_step_fill_rates [of pbs rows "[]"] by (simp add: init_def)
  show ?thesis
  proof (cases "rows = []")
    case True
    then show ?thesis
      by (simp add: compute_occupancy_stats_def rows_def [symmetric] Let_def)
  next
    case False
    obtain frs b pa where f: "fold (occ_step pbs) rows init = (frs, b, pa)"
      by (cases "fold (occ_step pbs) rows init") auto
    with fr have frs: "frs = map (fill_rate pbs) rows" by simp
    show ?thesis
      unfolding compute_occupancy_stats_def Let_def
      unfolding rows_def [symmetric]
      unfolding pbs_def [symmetric] init_def [symmetric]
      using False f frs by simp
  qed
qed

lemma fill_rate_selected:
  assumes "s_id s \<in> S"
  shows "fill_rate (counter (map p_session_id (filter (\<lambda>p. p_session_id p \<in> S) ps))) (s, a) =
         of_nat (length (filter (\<lambda>p. p_session_id p = s_id s) ps)) / of_int (effective_capacity s a)"
  using assms effective_capacity_pos [of s a]
  by (simp add: fill_rate_def Let_def counter_get_counter count_list_session_ids)

text \<open>
  Claim C2, as the code has it. The capacity a collective session is measured against is the
  session's own capacity when that column is not null, else the workshop's default capacity;
  when the value so obtained is missing, zero or negative, it is the constant 12. It is
  always positive. The fill rate of a session is the number of its presences divided by
  that capacity, and the reported average is the mean of the fill rates of the selected
  sessions, times 100, rounded to one decimal (no average when no session is selected). In
  the scenario of the specification (default capacity 10, capacities unset, 8 and 12
  presences) the average is 100.0, with one session in \<open>80-99%\<close> and one in \<open>100%+\<close>.
\<close>

theorem occupancy_capacity_fill_rate:
  "effective_capacity s a =
     (case (case capacite s of Some c \<Rightarrow> Some c | None \<Rightarrow> capacite_defaut a) of
        None \<Rightarrow> 12
      | Some c \<Rightarrow> if c \<le> 0 then 12 else c)
   \<and> 0 < effective_capacity s a
   \<and> oc_avg_fill_rate_pct (compute_occupancy_stats d flt) =
       (let rows = occupancy_sessions d flt
        in if rows = [] then None
           else Some (py_round 1 (mean (map (\<lambda>(s, a).
                  of_nat (length (filter (\<lambda>p. p_session_id p = s_id s) (db_presences d)))
                    / of_int (effective_capacity s a)) rows) * 100)))
   \<and> compute_occupancy_stats db_march flt_march =
       \<lparr>collective_sessions = 2,
        collective_presences = 20,
        oc_avg_fill_rate_pct = Some 100,
        oc_buckets = \<lparr>ob_lt_50 = 0, ob_50_79 = 0, ob_80_99 = 1, ob_100_plus = 1\<rparr>,
        oc_per_atelier =
          [\<lparr>or_atelier_id = Some 1, or_secteur = ''Numerique'', or_nom = ''W'', or_sessions = 2,
            or_presences = 20, or_capacity_total = 20, or_avg_fill_rate_pct = 100\<rparr>],
        oc_default_capacity = Some 12\<rparr>"
proof -
  have cap: "effective_capacity s a =
     (case (case capacite s of Some c \<Rightarrow> Some c | None \<Rightarrow> capacite_defaut a) of
        None \<Rightarrow> 12
      | Some c \<Rightarrow> if c \<le> 0 then 12 else c)"
    by (simp add: effective_capacity_def DEFAULT_COLLECTIF_CAPACITY_def Let_def split: option.splits)
  define rows where "rows = occupancy_sessions d flt"
  define pbs where "pbs = counter (map p_session_id
      (filter (\<lambda>p. p_session_id p \<in> set (map (\<lambda>(s, a). s_id s) rows)) (db_presences d)))"
  have meq: "map (fill_rate pbs) rows =
        map (\<lambda>(s, a). of_nat (length (filter (\<lambda>p. p_session_id p = s_id s) (db_presences d)))
                    / of_int (effective_capacity s a)) rows"
  proof (rule map_cong)
    fix r assume r: "r \<in> set rows"
    obtain s0 a0 where sa: "r = (s0, a0)" by (cases r)
    have "s_id s0 \<in> set (map (\<lambda>(s, a). s_id s) rows)"
      using r sa by force
    from fill_rate_selected [OF this, of "db_presences d" a0]
    show "fill_rate pbs r =
          (case r of (s, a) \<Rightarrow>
             of_nat (length (filter (\<lambda>p. p_session_id p = s_id s) (db_presences d)))
               / of_int (effective_capacity s a))"
      unfolding pbs_def sa by simp
  qed simp
  have avg: "oc_avg_fill_rate_pct (compute_occupancy_stats d flt) =
       (let rows = occupancy_sessions d flt
        in if rows = [] then None
           else Some (py_round 1 (mean (map (\<lambda>(s, a).
                  of_nat (length (filter (\<lambda>p. p_session_id p = s_id s) (db_presences d)))
                    / of_int (effective_capacity s a)) rows) * 100)))"
    unfolding occupancy_avg_general Let_def
    unfolding rows_def [symmetric]
    unfolding pbs_def [symmetric]
    unfolding meq
    by (rule refl)
  have scen: "compute_occupancy_stats db_march flt_march =
       \<lparr>collective_sessions = 2,
        collective_presences = 20,
        oc_avg_fill_rate_pct = Some 100,
        oc_buckets = \<lparr>ob_lt_50 = 0, ob_50_79 = 0, ob_80_99 = 1, ob_100_plus = 1\<rparr>,
        oc_per_atelier =
          [\<lparr>or_atelier_id = Some 1, or_secteur = ''Numerique'', or_nom = ''W'', or_sessions = 2,
            or_presences = 20, or_capacity_total = 20, or_avg_fill_rate_pct = 100\<rparr>],
        oc_default_capacity = Some 12\<rparr>"
    by code_simp
  show ?thesis using cap effective_capacity_pos [of s a] avg scen by simp
qed

text \<open>
  Claim C2 as stated fails for a session whose capacity column holds 0 in a workshop with
  default capacity 10: the capacity used is the constant 12, neither the session's explicit
  capacity nor the workshop default.
\<close>

theorem effective_capacity_zero_counterexample:
  "capacite ((collective_session 1 (ymd 2024 3 5))\<lparr>capacite := Some 0\<rparr>) = Some 0 \<and>
   capacite_defaut atelier_w = Some 10 \<and>
   effective_capacity ((collective_session 1 (ymd 2024 3 5))\<lparr>capacite := Some 0\<rparr>) atelier_w = 12"
  by code_simp

section \<open>Volume: the per-workshop rollup\<close>

lemma volume_table_of_result:
  assumes "previous_atelier_ids_of u d flt = Inr prev"
      and "query_sessions_for_period u d flt (f_date_from flt) (f_date_to flt) = rows"
      and "presences_of_sessions d (map (\<lambda>(s, a). s_id s) rows) = presences"
  shows "\<exists>v. compute_volume_activity_stats u d flt = Inr v \<and>
             v_table_ateliers v =
               volume_table_ateliers prev rows presences (snd (snd (volume_rollup rows presences)))"
  by (simp add: compute_volume_activity_stats_def Let_def assms split: prod.splits)

lemma rows_one_session_untimed:
  "query_sessions_for_period actor_view_all (db_one_session None None) flt_march
      (f_date_from flt_march) (f_date_to flt_march) = [(session_timed None None, atelier_w)]"
  by code_simp

lemma rows_one_session_timed:
  "query_sessions_for_period actor_view_all (db_one_session (Some ''14:00'') (Some ''16:00'')) flt_march
      (f_date_from flt_march) (f_date_to flt_march) =
     [(session_timed (Some ''14:00'') (Some ''16:00''), atelier_w)]"
  by code_simp

lemma presences_one_session_untimed:
  "presences_of_sessions (db_one_session None None)
      (map (\<lambda>(s, a). s_id s) [(session_timed None None, atelier_w)]) = presences_at 1 1 5"
  by code_simp

lemma presences_one_session_timed:
  "presences_of_sessions (db_one_session (Some ''14:00'') (Some ''16:00''))
      (map (\<lambda>(s, a). s_id s) [(session_timed (Some ''14:00'') (Some ''16:00''), atelier_w)]) =
     presences_at 1 1 5"
  by code_simp

lemma previous_one_session_untimed:
  "previous_atelier_ids_of actor_view_all (db_one_session None None) flt_march = Inr (Some [])"
  by code_simp

lemma previous_one_session_timed:
  "previous_atelier_ids_of actor_view_all (db_one_session (Some ''14:00'') (Some ''16:00'')) flt_march =
     Inr (Some [])"
  by code_simp

lemma table_one_session_untimed:
  "map (\<lambda>r. (ar_sessions_planned r, ar_sessions_real r, ar_presences r,
             ar_planned_capacity r, ar_real_capacity r, ar_occupation_rate r))
     (volume_table_ateliers (Some []) [(session_timed None None, atelier_w)] (presences_at 1 1 5)
        (snd (snd (volume_rollup [(session_timed None None, atelier_w)] (presences_at 1 1 5)))))
   = [(1, 1, 5, 0, 0, 0)]"
  by code_simp

lemma table_one_session_timed:
  "map (\<lambda>r. (ar_sessions_planned r, ar_sessions_real r, ar_presences r,
             ar_planned_capacity r, ar_real_capacity r, ar_occupation_rate r))
     (volume_table_ateliers (Some []) [(session_timed (Some ''14:00'') (Some ''16:00''), atelier_w)]
        (presences_at 1 1 5)
        (snd (snd (volume_rollup [(session_timed (Some ''14:00'') (Some ''16:00''), atelier_w)]
                     (presences_at 1 1 5)))))
   = [(1, 1, 5, 10, 10, 50)]"
  by code_simp

text \<open>
  Claim C4 at a workshop of default capacity 10 with one realised session in the window that
  has 5 presences, no start or end time, and no default duration to fall back on. The
  session's duration is 0 and its effective capacity is 10, but the turn of the loop ends
  at the \<open>continue\<close> of line 404 before the capacities are added: the row reports one
  planned and one real session with \<open>planned_capacity = 0\<close>, \<open>real_capacity = 0\<close> and
  \<open>occupation_rate = 0\<close>. The same session with times 14:00 to 16:00 gives 10, 10 and 50.0.
\<close>

theorem volume_rollup_capacity_without_duration:
  "session_duration_minutes (session_timed None None) atelier_w = 0 \<and>
   rollup_capacity (session_timed None None) atelier_w = 10 \<and>
   is_real (session_timed None None) \<and>
   (\<exists>v. compute_volume_activity_stats actor_view_all (db_one_session None None) flt_march = Inr v \<and>
        map (\<lambda>r. (ar_sessions_planned r, ar_sessions_real r, ar_presences r,
                   ar_planned_capacity r, ar_real_capacity r, ar_occupation_rate r))
            (v_table_ateliers v) = [(1, 1, 5, 0, 0, 0)]) \<and>
   (\<exists>v. compute_volume_activity_stats actor_view_all
            (db_one_session (Some ''14:00'') (Some ''16:00'')) flt_march = Inr v \<and>
        map (\<lambda>r. (ar_sessions_planned r, ar_sessions_real r, ar_presences r,
                   ar_planned_capacity r, ar_real_capacity r, ar_occupation_rate r))
            (v_table_ateliers v) = [(1, 1, 5, 10, 10, 50)])"
proof -
  have a: "session_duration_minutes (session_timed None None) atelier_w = 0"
    by code_simp
  have b: "rollup_capacity (session_timed None None) atelier_w = 10"
    by code_simp
  have c: "is_real (session_timed None None)"
    by code_simp
  from volume_table_of_result [OF previous_one_session_untimed rows_one_session_untimed
         presences_one_session_untimed]
  have d: "\<exists>v. compute_volume_activity_stats actor_view_all (db_one_session None None) flt_march = Inr v \<and>
        map (\<lambda>r. (ar_sessions_planned r, ar_sessions_real r, ar_presences r,
                   ar_planned_capacity r, ar_real_capacity r, ar_occupation_rate r))
            (v_table_ateliers v) = [(1, 1, 5, 0, 0, 0)]"
    using table_one_session_untimed by auto
  from volume_table_of_result [OF previous_one_session_timed rows_one_session_timed
         presences_one_session_timed]
  have e: "\<exists>v. compute_volume_activity_stats actor_view_all
            (db_one_session (Some ''14:00'') (Some ''16:00'')) flt_march = Inr v \<and>
        map (\<lambda>r. (ar_sessions_planned r, ar_sessions_real r, ar_presences r,
                   ar_planned_capacity r, ar_real_capacity r, ar_occupation_rate r))
            (v_table_ateliers v) = [(1, 1, 5, 10, 10, 50)]"
    using table_one_session_timed by auto
  from a b c d e show ?thesis by blast
qed

section \<open>Results when no session is in scope\<close>


















section \<open>Filters that match no session\<close>







section \<open>The bounded axes of the cross-tabulation\<close>

lemma limit_rows_length:
  assumes "0 < n"
  shows "int (length (limit_rows n xs)) \<le> n"
  using assms by (simp add: limit_rows_def)

lemma magato_sessions_bounded:
  assumes "0 < ms"
  shows "(case m_sessions (compute_magatomatique u d flt pq view ms mp) of
            None \<Rightarrow> True
          | Some ss \<Rightarrow> int (length ss) \<le> ms)"
  by (simp add: compute_magatomatique_def Let_def limit_rows_length [OF assms])

lemma magato_participants_bounded:
  assumes "0 < mp"
  shows "(case m_participants (compute_magatomatique u d flt pq view ms mp) of
            None \<Rightarrow> True
          | Some ps \<Rightarrow> int (length ps) \<le> mp)"
  by (simp add: compute_magatomatique_def magato_participants_def Let_def limit_rows_length [OF assms])

text \<open>
  Claim C3, as the code has it. With \<open>rs\<close> and \<open>rp\<close> the requested limits (40 and 250 when
  the parameter is absent, empty or not a number): a builder result shown by the dashboard
  has at most \<open>max(5, min(rs, 200))\<close> sessions and at most \<open>max(20, min(rp, 1000))\<close>
  participants, and one produced for the spreadsheet export at most \<open>max(5, min(rs, 400))\<close>
  and \<open>max(20, min(rp, 5000))\<close>. The bound is \<open>min(requested, cap)\<close> when the request is at
  least the lower clamp (5 sessions, 20 participants), and the lower clamp itself otherwise.
\<close>

theorem matrix_axes_clamped:
  "(let rs = requested_limit (args ''max_sessions'') 40;
        rp = requested_limit (args ''max_participants'') 250
    in (case dashboard_magato u d flt args of
          None \<Rightarrow> True
        | Some r \<Rightarrow>
            (case m_sessions r of None \<Rightarrow> True | Some ss \<Rightarrow> int (length ss) \<le> max 5 (min rs 200)) \<and>
            (case m_participants r of None \<Rightarrow> True | Some ps \<Rightarrow> int (length ps) \<le> max 20 (min rp 1000))) \<and>
       (case export_magato u d flt args of
          None \<Rightarrow> True
        | Some r \<Rightarrow>
            (case m_sessions r of None \<Rightarrow> True | Some ss \<Rightarrow> int (length ss) \<le> max 5 (min rs 400)) \<and>
            (case m_participants r of None \<Rightarrow> True | Some ps \<Rightarrow> int (length ps) \<le> max 20 (min rp 5000))) \<and>
       max 5 (min rs 200) = (if 5 \<le> rs then min rs 200 else 5) \<and>
       max 20 (min rp 1000) = (if 20 \<le> rp then min rp 1000 else 20))"
proof -
  define rs where "rs = requested_limit (args ''max_sessions'') 40"
  define rp where "rp = requested_limit (args ''max_participants'') 250"
  have p1: "0 < max 5 (min rs 200)" and p2: "0 < max 20 (min rp 1000)"
    and p3: "0 < max 5 (min rs 400)" and p4: "0 < max 20 (min rp 5000)"
    by simp_all
  have dash: "(case dashboard_magato u d flt args of
          None \<Rightarrow> True
        | Some r \<Rightarrow>
            (case m_sessions r of None \<Rightarrow> True | Some ss \<Rightarrow> int (length ss) \<le> max 5 (min rs 200)) \<and>
            (case m_participants r of None \<Rightarrow> True | Some ps \<Rightarrow> int (length ps) \<le> max 20 (min rp 1000)))"
    using magato_sessions_bounded [OF p1] magato_participants_bounded [OF p2]
    by (simp add: dashboard_magato_def dashboard_limits_def Let_def rs_def rp_def)
  have exp: "(case export_magato u d flt args of
          None \<Rightarrow> True
        | Some r \<Rightarrow>
            (case m_sessions r of None \<Rightarrow> True | Some ss \<Rightarrow> int (length ss) \<le> max 5 (min rs 400)) \<and>
            (case m_participants r of None \<Rightarrow> True | Some ps \<Rightarrow> int (length ps) \<le> max 20 (min rp 5000)))"
    using magato_sessions_bounded [OF p3] magato_participants_bounded [OF p4]
    by (simp add: export_magato_def export_limits_def Let_def rs_def rp_def)
  have ar: "max 5 (min rs 200) = (if 5 \<le> rs then min rs 200 else 5) \<and>
            max 20 (min rp 1000) = (if 20 \<le> rp then min rp 1000 else 20)"
    by auto
  show ?thesis
    unfolding Let_def rs_def [symmetric] rp_def [symmetric]
    using dash exp ar by blast
qed

lemma dashboard_small_request:
  "requested_limit (args_matrix_small ''max_sessions'') 40 = 1 \<and>
   requested_limit (args_matrix_small ''max_participants'') 250 = 1 \<and>
   map_option (\<lambda>r. (map_option length (m_sessions r), map_option length (m_participants r)))
      (dashboard_magato actor_view_all db_march_named flt_march args_matrix_small) = Some (Some 2, Some 2)"
  by code_simp

theorem matrix_axes_clamped_witness:
  "\<exists>r ss ps. dashboard_magato actor_view_all db_march_named flt_march args_matrix_small = Some r \<and>
      m_sessions r = Some ss \<and> m_participants r = Some ps \<and>
      length ss = 2 \<and> length ps = 2 \<and>
      int (length ss) \<le> max 5 (min 1 200) \<and> int (length ps) \<le> max 20 (min 1 1000)"
proof -
  from dashboard_small_request
  obtain r ss ps where r: "dashboard_magato actor_view_all db_march_named flt_march args_matrix_small = Some r"
    and ss: "m_sessions r = Some ss" "length ss = 2"
    and ps: "m_participants r = Some ps" "length ps = 2"
    by auto
  from matrix_axes_clamped [of args_matrix_small actor_view_all db_march_named flt_march]
  have "int (length ss) \<le> max 5 (min 1 200) \<and> int (length ps) \<le> max 20 (min 1 1000)"
    using dashboard_small_request by (simp add: r ss ps Let_def)
  with r ss ps show ?thesis by blast
qed

text \<open>
  Claim C3 as stated fails for a request below the lower clamp: with \<open>max_sessions=1\<close> and
  \<open>max_participants=1\<close> the dashboard's matrix of the March store lists 2 sessions and 2
  participants, more than \<open>min(1, 200)\<close> and \<open>min(1, 1000)\<close>.
\<close>

theorem matrix_axes_small_request_counterexample:
  "requested_limit (args_matrix_small ''max_sessions'') 40 = 1 \<and>
   requested_limit (args_matrix_small ''max_participants'') 250 = 1 \<and>
   map_option (\<lambda>r. (map_option length (m_sessions r), map_option length (m_participants r)))
      (dashboard_magato actor_view_all db_march_named flt_march args_matrix_small) = Some (Some 2, Some 2) \<and>
   \<not> (2 :: int) \<le> min 1 200 \<and> \<not> (2 :: int) \<le> min 1 1000"
  using dashboard_small_request by simp

end
